theory Spec2Isabelle
  imports Main "HOL-Library.Word"
begin

unbundle bit_operations_syntax

section \<open>Buffers and the frame header\<close>

text \<open>
  An \<open>ArrayBuffer\<close> is a list of bytes. The sequence id is what \<open>getUint16\<close> reads and
  \<open>setUint16\<close> writes, a 16-bit word; the operation code is a byte. A JavaScript string
  is a list of UTF-16 code units.
\<close>

type_synonym byte = "8 word"
type_synonym u16 = "16 word"
type_synonym bytes = "byte list"
type_synonym jsstring = "16 word list"

datatype fault = RangeError | SyntaxError | TypeError | Error | NotModelled

text \<open>
  \<open>DataView.getUint16(off)\<close> (big-endian by default) and \<open>DataView.getUint8(off)\<close>
  raise a RangeError when the read leaves the buffer.
\<close>

definition getUint16 :: "bytes \<Rightarrow> nat \<Rightarrow> fault + u16" where
  "getUint16 buf off =
     (if off + 2 \<le> length buf
      then Inr (push_bit 8 (ucast (buf ! off)) OR ucast (buf ! (off + 1)))
      else Inl RangeError)"

definition getUint8 :: "bytes \<Rightarrow> nat \<Rightarrow> fault + byte" where
  "getUint8 buf off = (if off + 1 \<le> length buf then Inr (buf ! off) else Inl RangeError)"

record msg_init =
  cursor :: nat
  seq :: u16
  op :: byte

text \<open>
  \<open>parseMsgInit\<close>: the two reads inside a \<open>try\<close>; a RangeError is caught and gives
  \<open>undefined\<close> (here \<open>None\<close>), any other exception would be thrown again. The reads raise
  nothing but a RangeError, so the function has no faulting outcome. It also writes the
  buffer to the console, which the model leaves out.
\<close>

definition parseMsgInit :: "bytes \<Rightarrow> msg_init option" where
  "parseMsgInit msg =
     (case getUint16 msg 0 of
        Inl e \<Rightarrow> None
      | Inr sq \<Rightarrow>
          (case getUint8 msg (0 + 2) of
             Inl e \<Rightarrow> None
           | Inr opc \<Rightarrow> Some \<lparr>cursor = 0 + 2 + 1, seq = sq, op = opc\<rparr>))"

text \<open>
  The writing side. \<open>new ArrayBuffer(n)\<close> is n zero bytes; \<open>setUint16\<close> writes the high
  byte first; \<open>Uint8Array.set(src, off)\<close> copies \<open>src\<close> into the buffer from \<open>off\<close>. All
  writes of the relay are into a buffer allocated with the exact size, so none leaves it.
\<close>

definition ArrayBuffer :: "nat \<Rightarrow> bytes" where
  "ArrayBuffer n = replicate n 0"

definition setUint16 :: "bytes \<Rightarrow> nat \<Rightarrow> u16 \<Rightarrow> bytes" where
  "setUint16 buf off v = buf[off := ucast (drop_bit 8 v), off + 1 := ucast v]"

definition setUint8 :: "bytes \<Rightarrow> nat \<Rightarrow> byte \<Rightarrow> bytes" where
  "setUint8 buf off v = buf[off := v]"

definition set_bytes :: "bytes \<Rightarrow> bytes \<Rightarrow> nat \<Rightarrow> bytes" where
  "set_bytes buf src off = take off buf @ src @ drop (off + length src) buf"

text \<open>
  The buffer that \<open>_sendJSONRes\<close>, \<open>sendHTTPResponseChunk\<close>, \<open>sendWSText\<close> and
  \<open>sendWSBinary\<close> each build before calling \<open>send\<close>, for a payload already in bytes:
  allocate \<open>2 + 1 + length\<close>, write the sequence id at 0, the operation at 2, the
  payload at 3.
\<close>

definition frame_buf :: "u16 \<Rightarrow> byte \<Rightarrow> bytes \<Rightarrow> bytes" where
  "frame_buf sq opc payloadBuffer =
     (let buf = ArrayBuffer (2 + 1 + length payloadBuffer);
          buf = setUint16 buf 0 sq;
          buf = setUint8 buf (0 + 2) opc
      in set_bytes buf payloadBuffer (0 + 2 + 1))"

text \<open>\<open>_sendSimpleRes\<close> allocates three bytes and writes the header only.\<close>

definition simple_buf :: "u16 \<Rightarrow> byte \<Rightarrow> bytes" where
  "simple_buf sq opc =
     (let buf = ArrayBuffer (2 + 1);
          buf = setUint16 buf 0 sq
      in setUint8 buf (0 + 2) opc)"

section \<open>Text: UTF-8 and UTF-16\<close>

text \<open>
  \<open>new TextDecoder().decode(bytes)\<close>: the UTF-8 decoder of the Encoding standard in its
  default, non-fatal mode. A malformed sequence does not raise: it becomes U+FFFD, and
  the byte that broke a sequence is read again as the start of the next one. A leading
  byte order mark is dropped. The result is a JavaScript string, so a code point above
  U+FFFF becomes a surrogate pair.
\<close>

text \<open>
  A byte read with no sequence open: the code points it emits, then the decoder's
  state (code point so far, continuation bytes still needed, lower and upper boundary
  of the next byte).
\<close>

definition utf8_lead :: "nat \<Rightarrow> nat list \<times> nat \<times> nat \<times> nat \<times> nat" where
  "utf8_lead v =
     (if v \<le> 0x7F then ([v], 0, 0, 0x80, 0xBF)
      else if 0xC2 \<le> v \<and> v \<le> 0xDF then ([], v - 0xC0, 1, 0x80, 0xBF)
      else if 0xE0 \<le> v \<and> v \<le> 0xEF then
        ([], v - 0xE0, 2, if v = 0xE0 then 0xA0 else 0x80, if v = 0xED then 0x9F else 0xBF)
      else if 0xF0 \<le> v \<and> v \<le> 0xF4 then
        ([], v - 0xF0, 3, if v = 0xF0 then 0x90 else 0x80, if v = 0xF4 then 0x8F else 0xBF)
      else ([0xFFFD], 0, 0, 0x80, 0xBF))"

fun utf8_decode :: "nat \<times> nat \<times> nat \<times> nat \<Rightarrow> bytes \<Rightarrow> nat list" where
  "utf8_decode (cp, needed, lower, upper) [] = (if needed \<noteq> 0 then [0xFFFD] else [])"
| "utf8_decode (cp, needed, lower, upper) (b # bs) =
     (let v = unat b in
      if needed = 0 then (case utf8_lead v of (out, st) \<Rightarrow> out @ utf8_decode st bs)
      else if v < lower \<or> upper < v then
        (case utf8_lead v of (out, st) \<Rightarrow> 0xFFFD # out @ utf8_decode st bs)
      else if needed = 1 then (cp * 64 + (v - 0x80)) # utf8_decode (0, 0, 0x80, 0xBF) bs
      else utf8_decode (cp * 64 + (v - 0x80), needed - 1, 0x80, 0xBF) bs)"

definition utf16_units :: "nat \<Rightarrow> jsstring" where
  "utf16_units cp =
     (if cp < 0x10000 then [of_nat cp]
      else [of_nat (0xD800 + (cp - 0x10000) div 0x400), of_nat (0xDC00 + (cp - 0x10000) mod 0x400)])"

definition strip_bom :: "nat list \<Rightarrow> nat list" where
  "strip_bom cps = (case cps of [] \<Rightarrow> [] | c # r \<Rightarrow> if c = 0xFEFF then r else cps)"

definition TextDecoder_decode :: "bytes \<Rightarrow> jsstring" where
  "TextDecoder_decode bs = concat (map utf16_units (strip_bom (utf8_decode (0, 0, 0x80, 0xBF) bs)))"

text \<open>
  Well-formed UTF-8 as the Unicode standard defines it (the table of well-formed byte
  sequences): what "valid UTF-8" means in a claim about the decoder.
\<close>

definition continuation :: "byte \<Rightarrow> nat \<Rightarrow> nat \<Rightarrow> bool" where
  "continuation b lower upper = (lower \<le> unat b \<and> unat b \<le> upper)"

fun well_formed_utf8 :: "bytes \<Rightarrow> bool" where
  "well_formed_utf8 [] = True"
| "well_formed_utf8 (b # bs) =
     (let v = unat b in
      if v \<le> 0x7F then well_formed_utf8 bs
      else if 0xC2 \<le> v \<and> v \<le> 0xDF then
        (case bs of
           c1 # r \<Rightarrow> continuation c1 0x80 0xBF \<and> well_formed_utf8 r
         | _ \<Rightarrow> False)
      else if 0xE0 \<le> v \<and> v \<le> 0xEF then
        (case bs of
           c1 # c2 # r \<Rightarrow>
             continuation c1 (if v = 0xE0 then 0xA0 else 0x80) (if v = 0xED then 0x9F else 0xBF)
             \<and> continuation c2 0x80 0xBF \<and> well_formed_utf8 r
         | _ \<Rightarrow> False)
      else if 0xF0 \<le> v \<and> v \<le> 0xF4 then
        (case bs of
           c1 # c2 # c3 # r \<Rightarrow>
             continuation c1 (if v = 0xF0 then 0x90 else 0x80) (if v = 0xF4 then 0x8F else 0xBF)
             \<and> continuation c2 0x80 0xBF \<and> continuation c3 0x80 0xBF \<and> well_formed_utf8 r
         | _ \<Rightarrow> False)
      else False)"

text \<open>
  \<open>new TextEncoder().encode(string)\<close>: the string's scalar values (a surrogate with no
  partner becomes U+FFFD) in UTF-8.
\<close>

fun scalar_values :: "jsstring \<Rightarrow> nat list" where
  "scalar_values [] = []"
| "scalar_values [c] = [if 0xD800 \<le> unat c \<and> unat c \<le> 0xDFFF then 0xFFFD else unat c]"
| "scalar_values (c # d # ds) =
     (if 0xD800 \<le> unat c \<and> unat c \<le> 0xDBFF then
        (if 0xDC00 \<le> unat d \<and> unat d \<le> 0xDFFF
         then (0x10000 + (unat c - 0xD800) * 0x400 + (unat d - 0xDC00)) # scalar_values ds
         else 0xFFFD # scalar_values (d # ds))
      else if 0xDC00 \<le> unat c \<and> unat c \<le> 0xDFFF then 0xFFFD # scalar_values (d # ds)
      else unat c # scalar_values (d # ds))"

definition utf8_encode :: "nat \<Rightarrow> bytes" where
  "utf8_encode cp =
     (if cp < 0x80 then [of_nat cp]
      else if cp < 0x800 then [of_nat (0xC0 + cp div 64), of_nat (0x80 + cp mod 64)]
      else if cp < 0x10000 then
        [of_nat (0xE0 + cp div 4096), of_nat (0x80 + cp div 64 mod 64), of_nat (0x80 + cp mod 64)]
      else
        [of_nat (0xF0 + cp div 262144), of_nat (0x80 + cp div 4096 mod 64),
         of_nat (0x80 + cp div 64 mod 64), of_nat (0x80 + cp mod 64)])"

definition TextEncoder_encode :: "jsstring \<Rightarrow> bytes" where
  "TextEncoder_encode s = concat (map utf8_encode (scalar_values s))"

text \<open>A string literal of the source, all ASCII, as a JavaScript string.\<close>

definition js :: "string \<Rightarrow> jsstring" where
  "js s = map (\<lambda>c. of_nat (of_char c)) s"

section \<open>JSON values and \<open>JSON.parse\<close>\<close>

text \<open>
  A parsed JSON value. A number keeps the decimal its text denotes, significand and
  power of ten; an object keeps its members in source order, a repeated key included
  (the last one is the property's value).
\<close>

datatype json =
    JNull
  | JBool bool
  | JNum int int
  | JStr jsstring
  | JArr "json list"
  | JObj "(jsstring \<times> json) list"

datatype token =
    TLBrace | TRBrace | TLBrack | TRBrack | TColon | TComma
  | TTrue | TFalse | TNull
  | TString jsstring
  | TNumber int int

definition is_ws :: "16 word \<Rightarrow> bool" where
  "is_ws c = (c = 0x09 \<or> c = 0x0A \<or> c = 0x0D \<or> c = 0x20)"

definition is_digit :: "16 word \<Rightarrow> bool" where
  "is_digit c = (0x30 \<le> c \<and> c \<le> 0x39)"

definition hex_val :: "16 word \<Rightarrow> nat option" where
  "hex_val c =
     (if 0x30 \<le> c \<and> c \<le> 0x39 then Some (unat c - 0x30)
      else if 0x41 \<le> c \<and> c \<le> 0x46 then Some (unat c - 0x41 + 10)
      else if 0x61 \<le> c \<and> c \<le> 0x66 then Some (unat c - 0x61 + 10)
      else None)"

definition hex4 :: "16 word \<Rightarrow> 16 word \<Rightarrow> 16 word \<Rightarrow> 16 word \<Rightarrow> 16 word option" where
  "hex4 a b c d =
     (case (hex_val a, hex_val b, hex_val c, hex_val d) of
        (Some x, Some y, Some z, Some w) \<Rightarrow> Some (of_nat (((x * 16 + y) * 16 + z) * 16 + w))
      | _ \<Rightarrow> None)"

text \<open>The single-character escapes: quote, slash, backslash, b, f, n, r, t.\<close>

definition escape_char :: "16 word \<Rightarrow> 16 word option" where
  "escape_char e =
     (if e = 0x22 \<or> e = 0x2F \<or> e = 0x5C then Some e
      else if e = 0x62 then Some 0x08
      else if e = 0x66 then Some 0x0C
      else if e = 0x6E then Some 0x0A
      else if e = 0x72 then Some 0x0D
      else if e = 0x74 then Some 0x09
      else None)"

text \<open>
  A string literal after its opening quote: the string, and the input after the closing
  quote. A control character below U+0020, a bad escape or a missing closing quote is a
  syntax error (\<open>None\<close>).
\<close>

fun lex_string :: "jsstring \<Rightarrow> (jsstring \<times> jsstring) option" where
  "lex_string [] = None"
| "lex_string (c # cs) =
     (if c = 0x22 then Some ([], cs)
      else if c < 0x20 then None
      else if c = 0x5C then
        (case cs of
           [] \<Rightarrow> None
         | e # es \<Rightarrow>
             if e = 0x75 then
               (case es of
                  h1 # h2 # h3 # h4 # r \<Rightarrow>
                    (case hex4 h1 h2 h3 h4 of
                       None \<Rightarrow> None
                     | Some u \<Rightarrow> map_option (\<lambda>(s, rest). (u # s, rest)) (lex_string r))
                | _ \<Rightarrow> None)
             else
               (case escape_char e of
                  None \<Rightarrow> None
                | Some u \<Rightarrow> map_option (\<lambda>(s, rest). (u # s, rest)) (lex_string es)))
      else map_option (\<lambda>(s, rest). (c # s, rest)) (lex_string cs))"

definition digits_val :: "jsstring \<Rightarrow> nat" where
  "digits_val ds = foldl (\<lambda>n d. 10 * n + (unat d - 0x30)) 0 ds"

text \<open>The optional fraction: its digits and the rest; a dot with no digit is an error.\<close>

definition lex_fraction :: "jsstring \<Rightarrow> (jsstring \<times> jsstring) option" where
  "lex_fraction cs =
     (case cs of
        [] \<Rightarrow> Some ([], [])
      | c # r \<Rightarrow>
          if c = 0x2E then
            (if takeWhile is_digit r = [] then None
             else Some (takeWhile is_digit r, dropWhile is_digit r))
          else Some ([], cs))"

text \<open>The optional exponent: its value and the rest; \<open>e\<close> with no digit is an error.\<close>

definition lex_exponent :: "jsstring \<Rightarrow> (int \<times> jsstring) option" where
  "lex_exponent cs =
     (case cs of
        [] \<Rightarrow> Some (0, [])
      | c # r \<Rightarrow>
          if c = 0x65 \<or> c = 0x45 then
            (let (sg, r1) =
               (case r of
                  [] \<Rightarrow> (1, [])
                | s # r' \<Rightarrow> if s = 0x2B then (1, r') else if s = 0x2D then (- 1, r') else (1, r))
             in if takeWhile is_digit r1 = [] then None
                else Some (sg * int (digits_val (takeWhile is_digit r1)), dropWhile is_digit r1))
          else Some (0, cs))"

text \<open>
  A number: optional minus, then a single 0 or a digit sequence not starting with 0,
  then fraction and exponent. The value is \<open>m * 10 ^ e\<close>.
\<close>

definition lex_number :: "jsstring \<Rightarrow> ((int \<times> int) \<times> jsstring) option" where
  "lex_number cs =
     (let (neg, cs1) = (case cs of [] \<Rightarrow> (False, []) | c # r \<Rightarrow> if c = 0x2D then (True, r) else (False, cs));
          ip = (case cs1 of [] \<Rightarrow> [] | c # r \<Rightarrow> if c = 0x30 then [c] else takeWhile is_digit cs1);
          cs2 = drop (length ip) cs1
      in if ip = [] then None
         else
           (case lex_fraction cs2 of
              None \<Rightarrow> None
            | Some (fp, cs3) \<Rightarrow>
                (case lex_exponent cs3 of
                   None \<Rightarrow> None
                 | Some (ex, cs4) \<Rightarrow>
                     Some (((if neg then - 1 else 1) * int (digits_val (ip @ fp)),
                            ex - int (length fp)), cs4))))"

lemma lex_string_shorter: "lex_string cs = Some (s, rest) \<Longrightarrow> length rest < length cs"
  by (induction cs arbitrary: s rest rule: lex_string.induct)
     (fastforce split: if_splits list.splits option.splits)+

lemma lex_fraction_shorter: "lex_fraction cs = Some (fp, rest) \<Longrightarrow> length rest \<le> length cs"
  by (auto simp add: lex_fraction_def length_dropWhile_le le_SucI split: list.splits if_splits)

lemma lex_exponent_shorter: "lex_exponent cs = Some (ex, rest) \<Longrightarrow> length rest \<le> length cs"
  by (auto simp add: lex_exponent_def Let_def length_dropWhile_le le_SucI
      intro: le_trans [OF length_dropWhile_le]
      split: list.splits if_splits prod.splits)

lemma lex_number_shorter: "lex_number cs = Some (v, rest) \<Longrightarrow> length rest < length cs"
proof -
  assume a: "lex_number cs = Some (v, rest)"
  define cs1 where "cs1 = (case cs of [] \<Rightarrow> [] | c # r \<Rightarrow> if c = 0x2D then r else cs)"
  define ip where "ip = (case cs1 of [] \<Rightarrow> [] | c # r \<Rightarrow> if c = 0x30 then [c] else takeWhile is_digit cs1)"
  have l1: "length cs1 \<le> length cs" by (auto simp: cs1_def split: list.splits)
  have l2: "length ip \<le> length cs1"
    by (auto simp: ip_def length_takeWhile_le split: list.splits)
  from a have ne: "ip \<noteq> []"
    by (auto simp: lex_number_def Let_def ip_def cs1_def split: list.splits if_splits prod.splits)
  from a obtain fp cs3 ex where f: "lex_fraction (drop (length ip) cs1) = Some (fp, cs3)"
    and e: "lex_exponent cs3 = Some (ex, rest)"
    by (auto simp: lex_number_def Let_def ip_def cs1_def split: list.splits if_splits prod.splits option.splits)
  from lex_fraction_shorter [OF f] lex_exponent_shorter [OF e] l1 l2 ne
  show ?thesis by (cases ip) auto
qed

text \<open>
  The tokens of a text. White space is tab, line feed, carriage return and space;
  anything that starts no token is a syntax error.
\<close>

function lex :: "jsstring \<Rightarrow> token list option" where
  "lex [] = Some []"
| "lex (c # cs) =
     (if is_ws c then lex cs
      else if c = 0x7B then map_option (Cons TLBrace) (lex cs)
      else if c = 0x7D then map_option (Cons TRBrace) (lex cs)
      else if c = 0x5B then map_option (Cons TLBrack) (lex cs)
      else if c = 0x5D then map_option (Cons TRBrack) (lex cs)
      else if c = 0x3A then map_option (Cons TColon) (lex cs)
      else if c = 0x2C then map_option (Cons TComma) (lex cs)
      else if c = 0x22 then
        (case lex_string cs of
           None \<Rightarrow> None
         | Some (s, rest) \<Rightarrow> map_option (Cons (TString s)) (lex rest))
      else if c = 0x2D \<or> is_digit c then
        (case lex_number (c # cs) of
           None \<Rightarrow> None
         | Some ((m, e), rest) \<Rightarrow> map_option (Cons (TNumber m e)) (lex rest))
      else if take 3 cs = js ''rue'' \<and> c = 0x74 then map_option (Cons TTrue) (lex (drop 3 cs))
      else if take 4 cs = js ''alse'' \<and> c = 0x66 then map_option (Cons TFalse) (lex (drop 4 cs))
      else if take 3 cs = js ''ull'' \<and> c = 0x6E then map_option (Cons TNull) (lex (drop 3 cs))
      else None)"
  by pat_completeness auto
termination
proof (relation "measure length")
  fix c cs x2 s rest
  assume "lex_string cs = Some x2" "(s, rest) = x2"
  then show "(rest, c # cs) \<in> measure length"
    using lex_string_shorter [of cs s rest] by simp
next
  fix c cs x2 v rest m e
  assume "lex_number (c # cs) = Some x2" "(v, rest) = x2" "(m, e) = v"
  then show "(rest, c # cs) \<in> measure length"
    using lex_number_shorter [of "c # cs" v rest] by simp
qed auto

text \<open>
  The parser reads the tokens one at a time and keeps the open arrays and objects on a
  stack: an open array with its elements so far, an open object with its members so
  far, and an object member whose key is read and whose value is awaited. Elements and
  members are kept newest first and reversed when the container closes.
\<close>

datatype ctx =
    CArr "json list"
  | CObj "(jsstring \<times> json) list"
  | CMem "(jsstring \<times> json) list" jsstring

datatype pstate =
    PValue "ctx list"
  | PFirstElem "ctx list"
  | PFirstKey "ctx list"
  | PKey "ctx list"
  | PColon "ctx list"
  | PAfter "ctx list"
  | PDone json

text \<open>A finished value goes to the innermost open container, or is the result.\<close>

fun deliver :: "json \<Rightarrow> ctx list \<Rightarrow> pstate option" where
  "deliver v [] = Some (PDone v)"
| "deliver v (CArr els # st) = Some (PAfter (CArr (v # els) # st))"
| "deliver v (CMem ms k # st) = Some (PAfter (CObj ((k, v) # ms) # st))"
| "deliver v (CObj ms # st) = None"

fun start_value :: "token \<Rightarrow> ctx list \<Rightarrow> pstate option" where
  "start_value TLBrack st = Some (PFirstElem (CArr [] # st))"
| "start_value TLBrace st = Some (PFirstKey (CObj [] # st))"
| "start_value TTrue st = deliver (JBool True) st"
| "start_value TFalse st = deliver (JBool False) st"
| "start_value TNull st = deliver JNull st"
| "start_value (TString s) st = deliver (JStr s) st"
| "start_value (TNumber m e) st = deliver (JNum m e) st"
| "start_value TRBrace st = None"
| "start_value TRBrack st = None"
| "start_value TColon st = None"
| "start_value TComma st = None"

fun close_array :: "ctx list \<Rightarrow> pstate option" where
  "close_array (CArr els # st) = deliver (JArr (rev els)) st"
| "close_array st = None"

fun close_object :: "ctx list \<Rightarrow> pstate option" where
  "close_object (CObj ms # st) = deliver (JObj (rev ms)) st"
| "close_object st = None"

fun read_key :: "jsstring \<Rightarrow> ctx list \<Rightarrow> pstate option" where
  "read_key k (CObj ms # st) = Some (PColon (CMem ms k # st))"
| "read_key k st = None"

fun after_value :: "ctx list \<Rightarrow> token \<Rightarrow> pstate option" where
  "after_value (CArr els # st) t =
     (if t = TComma then Some (PValue (CArr els # st))
      else if t = TRBrack then close_array (CArr els # st)
      else None)"
| "after_value (CObj ms # st) t =
     (if t = TComma then Some (PKey (CObj ms # st))
      else if t = TRBrace then close_object (CObj ms # st)
      else None)"
| "after_value st t = None"

fun parse_step :: "pstate \<Rightarrow> token \<Rightarrow> pstate option" where
  "parse_step (PValue st) t = start_value t st"
| "parse_step (PFirstElem st) t = (if t = TRBrack then close_array st else start_value t st)"
| "parse_step (PFirstKey st) t =
     (case t of TRBrace \<Rightarrow> close_object st | TString k \<Rightarrow> read_key k st | _ \<Rightarrow> None)"
| "parse_step (PKey st) t = (case t of TString k \<Rightarrow> read_key k st | _ \<Rightarrow> None)"
| "parse_step (PColon st) t = (if t = TColon then Some (PValue st) else None)"
| "parse_step (PAfter st) t = after_value st t"
| "parse_step (PDone v) t = None"

fun parse_tokens :: "pstate \<Rightarrow> token list \<Rightarrow> pstate option" where
  "parse_tokens p [] = Some p"
| "parse_tokens p (t # ts) =
     (case parse_step p t of None \<Rightarrow> None | Some p' \<Rightarrow> parse_tokens p' ts)"

text \<open>
  \<open>JSON.parse(text)\<close> with no reviver: the value, or a SyntaxError. It raises nothing
  else.
\<close>

definition JSON_parse :: "jsstring \<Rightarrow> fault + json" where
  "JSON_parse text =
     (case lex text of
        None \<Rightarrow> Inl SyntaxError
      | Some ts \<Rightarrow>
          (case parse_tokens (PValue []) ts of
             Some (PDone v) \<Rightarrow> Inr v
           | _ \<Rightarrow> Inl SyntaxError))"

text \<open>
  \<open>tryParseJSONPayload\<close>: decode, parse; a SyntaxError is caught and gives
  \<open>undefined\<close> (\<open>Inr None\<close>), any other exception is thrown again (\<open>Inl\<close>).
\<close>

definition tryParseJSONPayload :: "bytes \<Rightarrow> fault + json option" where
  "tryParseJSONPayload payloadRaw =
     (case JSON_parse (TextDecoder_decode payloadRaw) of
        Inl e \<Rightarrow> (if e = SyntaxError then Inr None else Inl e)
      | Inr payload \<Rightarrow> Inr (Some payload))"

text \<open>
  What \<open>!value\<close> tests: null, false, a zero number and the empty string are falsy.
  A number is zero when its significand is, or when its decimal is too small for a
  double and rounds to zero (at most \<open>2 ^ - 1075\<close> in magnitude).
\<close>

fun truthy :: "json \<Rightarrow> bool" where
  "truthy JNull = False"
| "truthy (JBool b) = b"
| "truthy (JNum m e) = (m \<noteq> 0 \<and> (0 \<le> e \<or> 10 ^ nat (- e) < \<bar>m\<bar> * 2 ^ 1075))"
| "truthy (JStr s) = (s \<noteq> [])"
| "truthy (JArr xs) = True"
| "truthy (JObj ms) = True"

text \<open>
  \<open>payload.url\<close> on what \<open>tryParseJSONPayload\<close> returned: reading a property of
  \<open>undefined\<close> or \<open>null\<close> raises a TypeError; an object gives its member (the last one
  of that name) or \<open>undefined\<close>; any other value has no such property.
\<close>

fun property_url :: "json option \<Rightarrow> fault + json option" where
  "property_url None = Inl TypeError"
| "property_url (Some JNull) = Inl TypeError"
| "property_url (Some (JObj ms)) = Inr (map_of (rev ms) (js ''url''))"
| "property_url (Some v) = Inr None"

text \<open>
  \<open>payload.remote\<close> on a request payload, in the same way.
\<close>

fun property_remote :: "json \<Rightarrow> fault + json option" where
  "property_remote JNull = Inl TypeError"
| "property_remote (JObj ms) = Inr (map_of (rev ms) (js ''remote''))"
| "property_remote v = Inr None"

section \<open>\<open>JSON.stringify\<close> of the relay's payloads\<close>

text \<open>
  The relay serialises three shapes of object: the response head, the close event and
  the body of an error. Their numbers are natural numbers, written in decimal, and
  their strings are quoted as \<open>JSON.stringify\<close> quotes them: the short escapes, a
  \<open>\u\<close> escape for the other control characters and for a surrogate with no partner.
\<close>

fun decimal :: "nat \<Rightarrow> jsstring" where
  "decimal n = (if n < 10 then [of_nat (0x30 + n)] else decimal (n div 10) @ [of_nat (0x30 + n mod 10)])"

definition hex_digit :: "nat \<Rightarrow> 16 word" where
  "hex_digit n = of_nat (if n < 10 then 0x30 + n else 0x61 + (n - 10))"

definition unicode_escape :: "16 word \<Rightarrow> jsstring" where
  "unicode_escape c =
     [0x5C, 0x75, hex_digit (unat c div 4096), hex_digit (unat c div 256 mod 16),
      hex_digit (unat c div 16 mod 16), hex_digit (unat c mod 16)]"

definition quote_unit :: "16 word \<Rightarrow> jsstring" where
  "quote_unit c =
     (if c = 0x08 then [0x5C, 0x62]
      else if c = 0x09 then [0x5C, 0x74]
      else if c = 0x0A then [0x5C, 0x6E]
      else if c = 0x0C then [0x5C, 0x66]
      else if c = 0x0D then [0x5C, 0x72]
      else if c = 0x22 then [0x5C, 0x22]
      else if c = 0x5C then [0x5C, 0x5C]
      else if c < 0x20 \<or> (0xD800 \<le> c \<and> c \<le> 0xDFFF) then unicode_escape c
      else [c])"

fun quote_units :: "jsstring \<Rightarrow> jsstring" where
  "quote_units [] = []"
| "quote_units [c] = quote_unit c"
| "quote_units (c # d # ds) =
     (if 0xD800 \<le> c \<and> c \<le> 0xDBFF \<and> 0xDC00 \<le> d \<and> d \<le> 0xDFFF
      then c # d # quote_units ds
      else quote_unit c @ quote_units (d # ds))"

definition QuoteJSONString :: "jsstring \<Rightarrow> jsstring" where
  "QuoteJSONString s = 0x22 # quote_units s @ [0x22]"

fun join_comma :: "jsstring list \<Rightarrow> jsstring" where
  "join_comma [] = []"
| "join_comma [x] = x"
| "join_comma (x # y # r) = x @ 0x2C # join_comma (y # r)"

definition json_member :: "string \<Rightarrow> jsstring \<Rightarrow> jsstring" where
  "json_member k v = QuoteJSONString (js k) @ 0x3A # v"

definition json_object :: "jsstring list \<Rightarrow> jsstring" where
  "json_object ms = 0x7B # join_comma ms @ [0x7D]"

definition json_array :: "jsstring list \<Rightarrow> jsstring" where
  "json_array xs = 0x5B # join_comma xs @ [0x5D]"

record HTTPResponsePayload =
  status :: nat
  statusText :: jsstring
  headers :: "(jsstring \<times> jsstring list) list"

record S2CWSClosePayload =
  close_code :: nat
  reason :: jsstring
  wasClean :: bool

text \<open>
  Modelled from the spec: \<open>BareError\<close> and the type of its body are declared in the
  fetch collaborator's module, which is not among the sources. The spec (4.2, 7 and
  the scenario of section 8) has a status and a structured body, an object of an error
  code, an identifier, a message and a trace; the relay itself builds such a body with
  these four properties. A property that is \<open>undefined\<close> is left out of the JSON text.
\<close>

record BareErrorBody =
  err_code :: jsstring
  err_id :: "jsstring option"
  err_message :: "jsstring option"
  err_stack :: "jsstring option"

record BareError =
  err_status :: nat
  err_body :: BareErrorBody

definition stringify_headers :: "(jsstring \<times> jsstring list) list \<Rightarrow> jsstring" where
  "stringify_headers hs =
     json_object (map (\<lambda>(k, vs). QuoteJSONString k @ 0x3A # json_array (map QuoteJSONString vs)) hs)"

definition stringify_HTTPResponsePayload :: "HTTPResponsePayload \<Rightarrow> jsstring" where
  "stringify_HTTPResponsePayload p =
     json_object
       [json_member ''status'' (decimal (status p)),
        json_member ''statusText'' (QuoteJSONString (statusText p)),
        json_member ''headers'' (stringify_headers (headers p))]"

definition stringify_S2CWSClosePayload :: "S2CWSClosePayload \<Rightarrow> jsstring" where
  "stringify_S2CWSClosePayload p =
     json_object
       [json_member ''code'' (decimal (close_code p)),
        json_member ''reason'' (QuoteJSONString (reason p)),
        json_member ''wasClean'' (if wasClean p then js ''true'' else js ''false'')]"

definition optional_member :: "string \<Rightarrow> jsstring option \<Rightarrow> jsstring list" where
  "optional_member k v = (case v of None \<Rightarrow> [] | Some s \<Rightarrow> [json_member k (QuoteJSONString s)])"

definition stringify_BareErrorBody :: "BareErrorBody \<Rightarrow> jsstring" where
  "stringify_BareErrorBody b =
     json_object
       ([json_member ''code'' (QuoteJSONString (err_code b))]
        @ optional_member ''id'' (err_id b)
        @ optional_member ''message'' (err_message b)
        @ optional_member ''stack'' (err_stack b))"

section \<open>URLs\<close>

text \<open>
  \<open>new URL(x)\<close> and \<open>new WebSocket(x)\<close> convert \<open>x\<close> to a string and parse it as a URL
  with no base. The parser drops leading characters up to U+0020 and every tab and
  line break, and then fails unless the text starts with a scheme: a letter, then
  letters, digits, plus, minus and dot, then a colon.
\<close>

definition is_alpha :: "16 word \<Rightarrow> bool" where
  "is_alpha c = ((0x41 \<le> c \<and> c \<le> 0x5A) \<or> (0x61 \<le> c \<and> c \<le> 0x7A))"

fun scheme_ends :: "jsstring \<Rightarrow> bool" where
  "scheme_ends [] = False"
| "scheme_ends (c # cs) =
     (if c = 0x3A then True
      else if is_alpha c \<or> is_digit c \<or> c = 0x2B \<or> c = 0x2D \<or> c = 0x2E then scheme_ends cs
      else False)"

definition has_scheme :: "jsstring \<Rightarrow> bool" where
  "has_scheme text =
     (case filter (\<lambda>c. c \<noteq> 0x09 \<and> c \<noteq> 0x0A \<and> c \<noteq> 0x0D) (dropWhile (\<lambda>c. c \<le> 0x20) text) of
        [] \<Rightarrow> False
      | c # cs \<Rightarrow> is_alpha c \<and> scheme_ends cs)"

text \<open>
  The conversion of a parsed value to a string: a string is itself, an object is
  \<open>[object Object]\<close>, an array is its elements joined by commas with null as the
  empty text. A number is written here as 0 with its sign, not with its digits: the
  text of a number starts with a digit, a minus or the I of Infinity, has no colon
  and is followed by a comma or by the end of the text, so its digits never decide
  whether the text starts with a scheme.
\<close>

fun url_text :: "json \<Rightarrow> jsstring" where
  "url_text JNull = js ''null''"
| "url_text (JBool b) = (if b then js ''true'' else js ''false'')"
| "url_text (JNum m e) = (if m < 0 then js ''-0'' else js ''0'')"
| "url_text (JStr s) = s"
| "url_text (JArr xs) = join_comma (map (\<lambda>x. if x = JNull then [] else url_text x) xs)"
| "url_text (JObj ms) = js ''[object Object]''"

text \<open>
  Whether a value, \<open>None\<close> for \<open>undefined\<close>, can be an absolute URL at all: whether its
  text starts with a scheme. If not, the constructors throw; if so, the rest of the
  text decides.
\<close>

definition absolute_URL_candidate :: "json option \<Rightarrow> bool" where
  "absolute_URL_candidate x =
     has_scheme (case x of None \<Rightarrow> js ''undefined'' | Some v \<Rightarrow> url_text v)"

section \<open>The relay\<close>

text \<open>
  Modelled from the spec: the operation tables \<open>C2SRequestTypes\<close> and
  \<open>S2CRequestTypes\<close> are declared in the protocol package and \<open>STATUS_CODES\<close> in the
  runtime's http module; neither is among the sources. The spec (sections 3 and 6)
  names the operations and says each is an 8-bit code, it gives no numbers. The tables
  are therefore a parameter of every function that uses them, and every theorem about
  these functions holds for every table.
\<close>

record protocol =
  C2S_HTTPRequest :: byte
  C2S_WSOpen :: byte
  C2S_WSSendText :: byte
  C2S_WSSendBinary :: byte
  C2S_WSClose :: byte
  S2C_HTTPResponseStart :: byte
  S2C_HTTPResponseChunk :: byte
  S2C_HTTPResponseEnd :: byte
  S2C_WSOpen :: byte
  S2C_WSClose :: byte
  S2C_WSDataText :: byte
  S2C_WSDataBinary :: byte
  STATUS_CODES :: "nat \<Rightarrow> jsstring option"

text \<open>
  An external WebSocket as the relay sees it: the argument it was constructed with
  (\<open>None\<close> for \<open>undefined\<close>), its \<open>binaryType\<close>, the sequence id its three handlers
  \<open>onopen\<close>, \<open>onclose\<close> and \<open>onmessage\<close> have captured, what \<open>send\<close> was called
  with, and how often \<open>close\<close> was called.
\<close>

datatype ws_data = TextData jsstring | BinaryData bytes

record websocket =
  ws_url :: "json option"
  binaryType_arraybuffer :: bool
  handler_seq :: u16
  outbox :: "ws_data list"
  close_calls :: nat

text \<open>
  The state of an \<open>AdriftServer\<close>: the buffers passed to \<open>send\<close>, oldest first; the
  registry \<open>sockets\<close> from sequence id to socket (a position in \<open>wss\<close>, the sockets
  created so far); the listeners of the \<open>close\<close> event of \<open>events\<close>, each the
  \<open>onClose\<close> closure of one exchange, named by the number of its AbortController; the
  controllers created and those aborted. Output to the console is not part of the
  state.
\<close>

record relay =
  sent :: "bytes list"
  sockets :: "u16 \<rightharpoonup> nat"
  wss :: "websocket list"
  listeners :: "nat list"
  controllers :: nat
  aborted :: "nat list"

definition new_relay :: relay where
  "new_relay = \<lparr>sent = [], sockets = Map.empty, wss = [], listeners = [], controllers = 0, aborted = []\<rparr>"

definition send :: "bytes \<Rightarrow> relay \<Rightarrow> relay" where
  "send buf s = s\<lparr>sent := sent s @ [buf]\<rparr>"

definition sendJSONRes :: "u16 \<Rightarrow> byte \<Rightarrow> jsstring \<Rightarrow> relay \<Rightarrow> relay" where
  "sendJSONRes sq opc json_text s = send (frame_buf sq opc (TextEncoder_encode json_text)) s"

definition sendHTTPResponseStart :: "protocol \<Rightarrow> u16 \<Rightarrow> HTTPResponsePayload \<Rightarrow> relay \<Rightarrow> relay" where
  "sendHTTPResponseStart P sq payload s =
     sendJSONRes sq (S2C_HTTPResponseStart P) (stringify_HTTPResponsePayload payload) s"

definition sendHTTPResponseChunk :: "protocol \<Rightarrow> u16 \<Rightarrow> bytes \<Rightarrow> relay \<Rightarrow> relay" where
  "sendHTTPResponseChunk P sq chunk s = send (frame_buf sq (S2C_HTTPResponseChunk P) chunk) s"

definition sendSimpleRes :: "u16 \<Rightarrow> byte \<Rightarrow> relay \<Rightarrow> relay" where
  "sendSimpleRes sq opc s = send (simple_buf sq opc) s"

definition sendHTTPResponseEnd :: "protocol \<Rightarrow> u16 \<Rightarrow> relay \<Rightarrow> relay" where
  "sendHTTPResponseEnd P sq s = sendSimpleRes sq (S2C_HTTPResponseEnd P) s"

definition sendWSOpen :: "protocol \<Rightarrow> u16 \<Rightarrow> relay \<Rightarrow> relay" where
  "sendWSOpen P sq s = sendSimpleRes sq (S2C_WSOpen P) s"

definition sendWSClose :: "protocol \<Rightarrow> u16 \<Rightarrow> S2CWSClosePayload \<Rightarrow> relay \<Rightarrow> relay" where
  "sendWSClose P sq payload s =
     sendJSONRes sq (S2C_WSClose P) (stringify_S2CWSClosePayload payload) s"

definition sendWSText :: "protocol \<Rightarrow> u16 \<Rightarrow> bytes \<Rightarrow> relay \<Rightarrow> relay" where
  "sendWSText P sq textEncoded s = send (frame_buf sq (S2C_WSDataText P) textEncoded) s"

definition sendWSBinary :: "protocol \<Rightarrow> u16 \<Rightarrow> bytes \<Rightarrow> relay \<Rightarrow> relay" where
  "sendWSBinary P sq msg s = send (frame_buf sq (S2C_WSDataBinary P) msg) s"

subsection \<open>The HTTP exchange\<close>

text \<open>
  A chunk of a response body as the loop of \<open>onMsg\<close> receives it: a buffer from the
  real response, or a string, which is what \<open>Readable.from(string)\<close> yields (the
  whole string as one chunk).
\<close>

datatype chunk = Buffer bytes | Str jsstring

text \<open>
  A response as \<open>handleHTTPRequest\<close> returns it. Its body is a stream: it yields the
  chunks of \<open>body\<close> in order and then either ends or, when \<open>body_fails\<close>, fails with
  an error (the connection was reset, say), which the reading loop throws.
\<close>

record response =
  payload :: HTTPResponsePayload
  body :: "chunk list"
  body_fails :: bool

definition bareErrorToResponse :: "protocol \<Rightarrow> BareError \<Rightarrow> response" where
  "bareErrorToResponse P e =
     \<lparr>payload =
        \<lparr>status = err_status e,
         statusText = (case STATUS_CODES P (err_status e) of None \<Rightarrow> [] | Some t \<Rightarrow> t),
         headers = []\<rparr>,
      body = [Str (stringify_BareErrorBody (err_body e))],
      body_fails = False\<rparr>"

text \<open>
  What the fetch collaborator does when it is called: it resolves to a response or
  rejects with something thrown. Thrown is a \<open>BareError\<close>, another \<open>Error\<close> (name,
  message, stack), or a value that is no \<open>Error\<close>: its conversion to a string, which
  is \<open>None\<close> when the conversion itself throws (a Symbol), and the stack of the
  \<open>Error\<close> made from it. The body of a response yields \<open>chunks\<close> and then ends,
  or fails after them when \<open>stream_fails\<close>.
\<close>

datatype thrown =
    ThrownBareError BareError
  | ThrownError jsstring jsstring "jsstring option"
  | ThrownValue "jsstring option" "jsstring option"

record IncomingMessage =
  statusCode :: "nat option"
  statusMessage :: "jsstring option"
  headersDistinct :: "(jsstring \<times> jsstring list option) list"
  chunks :: "bytes list"
  stream_fails :: bool

datatype fetch_outcome = Resolves IncomingMessage | Rejects thrown

text \<open>
  The collaborators during one call of \<open>onMsg\<close>: what the fetch does if it is called;
  whether \<open>new URL\<close> accepts a text that starts with a scheme; the message and the
  stack of the TypeError it throws otherwise; whether \<open>new WebSocket\<close> returns a
  socket for a text that starts with a scheme; and whether \<open>socket.send\<close> throws (a
  socket still connecting refuses to send).
\<close>

record collaborators =
  bareFetch :: fetch_outcome
  URL_parses :: bool
  TypeError_text :: "jsstring \<times> jsstring option"
  WebSocket_returns :: bool
  socket_send_throws :: bool

text \<open>
  The expression \<open>await bareFetch(payload, abort.signal, new URL(payload.remote),
  options)\<close>. The arguments are evaluated first: when \<open>new URL\<close> throws its
  TypeError the collaborator is not called.
\<close>

definition TypeError_thrown :: "collaborators \<Rightarrow> thrown" where
  "TypeError_thrown env =
     ThrownError (js ''TypeError'') (fst (TypeError_text env)) (snd (TypeError_text env))"

definition await_bareFetch :: "collaborators \<Rightarrow> json \<Rightarrow> fetch_outcome" where
  "await_bareFetch env reqPayload =
     (case property_remote reqPayload of
        Inl f \<Rightarrow> Rejects (TypeError_thrown env)
      | Inr remote \<Rightarrow>
          if absolute_URL_candidate remote \<and> URL_parses env then bareFetch env
          else Rejects (TypeError_thrown env))"

text \<open>
  \<open>events.on("close", onClose)\<close> appends a listener; \<open>events.off("close", onClose)\<close>
  removes its most recent registration, if there is one.
\<close>

definition events_on :: "nat \<Rightarrow> relay \<Rightarrow> relay" where
  "events_on h s = s\<lparr>listeners := listeners s @ [h]\<rparr>"

definition events_off :: "nat \<Rightarrow> relay \<Rightarrow> relay" where
  "events_off h s = s\<lparr>listeners := rev (remove1 h (rev (listeners s)))\<rparr>"

text \<open>
  The head of a response, the object \<open>{status, statusText, headers}\<close> that
  \<open>handleHTTPRequest\<close> builds from what the fetch resolved to: \<open>statusCode || 500\<close>,
  \<open>statusMessage || ""\<close>, and the headers whose value is not \<open>undefined\<close>.
\<close>

definition response_headers :: "(jsstring \<times> jsstring list option) list \<Rightarrow> (jsstring \<times> jsstring list) list" where
  "response_headers hs = List.map_filter (\<lambda>(k, v). map_option (Pair k) v) hs"

definition response_payload :: "IncomingMessage \<Rightarrow> HTTPResponsePayload" where
  "response_payload resp =
     \<lparr>status = (case statusCode resp of None \<Rightarrow> 500 | Some c \<Rightarrow> if c = 0 then 500 else c),
      statusText = (case statusMessage resp of None \<Rightarrow> [] | Some m \<Rightarrow> m),
      headers = response_headers (headersDistinct resp)\<rparr>"

text \<open>
  \<open>handleHTTPRequest\<close>, one exchange from \<open>new AbortController()\<close> to its return or
  throw. The three ways out are the three of the source: the \<open>catch\<close> returns the
  response made from a \<open>BareError\<close>; it deregisters the listener and throws anything
  else again; after the \<open>try\<close> the listener is deregistered and the response returned.
\<close>

definition handleHTTPRequest :: "protocol \<Rightarrow> collaborators \<Rightarrow> json \<Rightarrow> relay \<Rightarrow> (thrown + response) \<times> relay" where
  "handleHTTPRequest P env reqPayload s =
     (let abort = controllers s;
          s = events_on abort (s\<lparr>controllers := Suc abort\<rparr>)
      in case await_bareFetch env reqPayload of
           Rejects e \<Rightarrow>
             (case e of
                ThrownBareError b \<Rightarrow> (Inr (bareErrorToResponse P b), s)
              | _ \<Rightarrow> (Inl e, events_off abort s))
         | Resolves resp \<Rightarrow>
             (Inr \<lparr>payload = response_payload resp,
                   body = map Buffer (chunks resp),
                   body_fails = stream_fails resp\<rparr>,
              events_off abort s))"

text \<open>
  The \<open>catch\<close> of \<open>onMsg\<close>: what was thrown, as a \<open>BareError\<close>. For a value that
  is no \<open>Error\<close> the message is \<open>"Error: " + e\<close>; when the value does not convert to
  a string that concatenation throws a TypeError, out of the \<open>catch\<close> and out of
  \<open>onMsg\<close>.
\<close>

fun as_BareError :: "thrown \<Rightarrow> fault + BareError" where
  "as_BareError (ThrownBareError b) = Inr b"
| "as_BareError (ThrownError name message stack) =
     Inr \<lparr>err_status = 500,
          err_body = \<lparr>err_code = js ''UNKNOWN'', err_id = Some (js ''error.'' @ name),
                      err_message = Some message, err_stack = stack\<rparr>\<rparr>"
| "as_BareError (ThrownValue None stack) = Inl TypeError"
| "as_BareError (ThrownValue (Some text) stack) =
     Inr \<lparr>err_status = 500,
          err_body = \<lparr>err_code = js ''UNKNOWN'', err_id = Some (js ''error.Exception''),
                      err_message = Some (js ''Error: '' @ text), err_stack = stack\<rparr>\<rparr>"

text \<open>
  \<open>new Uint8Array(chunk)\<close>. Of a buffer it is the buffer's bytes. Of a string it is an
  array of zero bytes whose length is the string read as a number, and zero when the
  string is no number literal. A string that begins with an opening brace is none, so
  the array is empty. For any other string the length is a matter of the runtime's
  number arithmetic, which is not modelled; the relay passes no such string.
\<close>

fun Uint8Array :: "chunk \<Rightarrow> fault + bytes" where
  "Uint8Array (Buffer b) = Inr b"
| "Uint8Array (Str s) = (case s of [] \<Rightarrow> Inr [] | c # r \<Rightarrow> if c = 0x7B then Inr [] else Inl NotModelled)"

text \<open>
  The loop \<open>for await (const chunk of body)\<close>: a frame for each chunk the stream
  yields; when the stream fails, the loop throws its error. Nothing around the loop
  catches it.
\<close>

fun send_body :: "protocol \<Rightarrow> u16 \<Rightarrow> chunk list \<Rightarrow> bool \<Rightarrow> relay \<Rightarrow> fault option \<times> relay" where
  "send_body P sq [] fails s = (if fails then (Some Error, s) else (None, s))"
| "send_body P sq (c # cs) fails s =
     (case Uint8Array c of
        Inl f \<Rightarrow> (Some f, s)
      | Inr b \<Rightarrow> send_body P sq cs fails (sendHTTPResponseChunk P sq b s))"

definition onMsg_HTTPRequest :: "protocol \<Rightarrow> collaborators \<Rightarrow> bytes \<Rightarrow> msg_init \<Rightarrow> relay \<Rightarrow> fault option \<times> relay" where
  "onMsg_HTTPRequest P env msg init s =
     (case tryParseJSONPayload (drop (cursor init) msg) of
        Inl f \<Rightarrow> (Some f, s)
      | Inr None \<Rightarrow> (None, s)
      | Inr (Some reqPayload) \<Rightarrow>
          if \<not> truthy reqPayload then (None, s)
          else
            (case handleHTTPRequest P env reqPayload s of (r, s) \<Rightarrow>
               (case (case r of
                        Inr resp \<Rightarrow> Inr resp
                      | Inl e \<Rightarrow> map_sum id (bareErrorToResponse P) (as_BareError e)) of
                  Inl f \<Rightarrow> (Some f, s)
                | Inr resp \<Rightarrow>
                    (let s = sendHTTPResponseStart P (seq init) (payload resp) s
                     in case send_body P (seq init) (body resp) (body_fails resp) s of
                          (Some f, s) \<Rightarrow> (Some f, s)
                        | (None, s) \<Rightarrow> (None, sendHTTPResponseEnd P (seq init) s)))))"

subsection \<open>The WebSocket bridge\<close>

text \<open>
  The WSOpen branch. \<open>new WebSocket(payload.url)\<close> parses its argument as a URL and
  throws a SyntaxError when that fails, so for a value that cannot be an absolute URL
  it always throws; the assignment to the registry is then not reached.
\<close>

definition onMsg_WSOpen :: "collaborators \<Rightarrow> bytes \<Rightarrow> msg_init \<Rightarrow> relay \<Rightarrow> fault option \<times> relay" where
  "onMsg_WSOpen env msg init s =
     (case tryParseJSONPayload (drop (cursor init) msg) of
        Inl f \<Rightarrow> (Some f, s)
      | Inr wsPayload \<Rightarrow>
          (case property_url wsPayload of
             Inl f \<Rightarrow> (Some f, s)
           | Inr url \<Rightarrow>
               if \<not> (absolute_URL_candidate url \<and> WebSocket_returns env) then (Some SyntaxError, s)
               else
                 (None,
                  s\<lparr>wss := wss s @ [\<lparr>ws_url = url, binaryType_arraybuffer = True,
                                     handler_seq = seq init, outbox = [], close_calls = 0\<rparr>],
                    sockets := (sockets s)(seq init \<mapsto> length (wss s))\<rparr>)))"

definition socket_send :: "collaborators \<Rightarrow> nat \<Rightarrow> ws_data \<Rightarrow> relay \<Rightarrow> fault option \<times> relay" where
  "socket_send env h d s =
     (if socket_send_throws env then (Some Error, s)
      else (None, s\<lparr>wss := (wss s)[h := (wss s ! h)\<lparr>outbox := outbox (wss s ! h) @ [d]\<rparr>]\<rparr>))"

definition socket_close :: "nat \<Rightarrow> relay \<Rightarrow> relay" where
  "socket_close h s = s\<lparr>wss := (wss s)[h := (wss s ! h)\<lparr>close_calls := Suc (close_calls (wss s ! h))\<rparr>]\<rparr>"

subsection \<open>The dispatcher\<close>

text \<open>
  \<open>onMsg\<close>. The \<open>switch\<close> compares the operation with the case labels in the order
  they are written. The result is what escapes the call, if anything (the promise
  of the \<open>async\<close> function is rejected with it), and the state after it. A call is
  one step of the model: what other handlers do while this one awaits the fetch or
  the next chunk of the body is not interleaved with it.
\<close>

definition onMsg :: "protocol \<Rightarrow> collaborators \<Rightarrow> bytes \<Rightarrow> relay \<Rightarrow> fault option \<times> relay" where
  "onMsg P env msg s =
     (case parseMsgInit msg of
        None \<Rightarrow> (None, s)
      | Some init \<Rightarrow>
          if op init = C2S_HTTPRequest P then onMsg_HTTPRequest P env msg init s
          else if op init = C2S_WSOpen P then onMsg_WSOpen env msg init s
          else if op init = C2S_WSSendText P then
            (case sockets s (seq init) of
               None \<Rightarrow> (None, s)
             | Some socket \<Rightarrow>
                 socket_send env socket (TextData (TextDecoder_decode (drop (cursor init) msg))) s)
          else if op init = C2S_WSSendBinary P then
            (case sockets s (seq init) of
               None \<Rightarrow> (None, s)
             | Some socket \<Rightarrow> socket_send env socket (BinaryData (drop (cursor init) msg)) s)
          else if op init = C2S_WSClose P then
            (case sockets s (seq init) of
               None \<Rightarrow> (None, s)
             | Some socket \<Rightarrow> (None, socket_close socket s))
          else (None, s))"

text \<open>
  \<open>onClose\<close> emits \<open>close\<close>: every listener registered at that moment runs once, in
  order of registration; it aborts its controller and deregisters itself.
\<close>

definition run_listener :: "nat \<Rightarrow> relay \<Rightarrow> relay" where
  "run_listener h s = events_off h (s\<lparr>aborted := aborted s @ [h]\<rparr>)"

definition onClose :: "relay \<Rightarrow> relay" where
  "onClose s = fold run_listener (listeners s) s"

subsection \<open>The handlers of a socket\<close>

text \<open>
  What \<open>onmessage\<close> can be called with: a raw \<open>ArrayBuffer\<close> and the flag
  \<open>isBinary\<close>; an event whose \<open>data\<close> is a string; an event whose \<open>data\<close> is an
  \<open>ArrayBuffer\<close>; anything else.
\<close>

datatype ws_message =
    RawBuffer bytes bool
  | EventString jsstring
  | EventBuffer bytes
  | Unexpected

definition ws_onopen :: "protocol \<Rightarrow> websocket \<Rightarrow> relay \<Rightarrow> fault option \<times> relay" where
  "ws_onopen P ws s = (None, sendWSOpen P (handler_seq ws) s)"

definition ws_onclose :: "protocol \<Rightarrow> websocket \<Rightarrow> S2CWSClosePayload \<Rightarrow> relay \<Rightarrow> fault option \<times> relay" where
  "ws_onclose P ws e s =
     (None, sendWSClose P (handler_seq ws)
              \<lparr>close_code = close_code e, reason = reason e, wasClean = wasClean e\<rparr> s)"

fun ws_onmessage :: "protocol \<Rightarrow> websocket \<Rightarrow> ws_message \<Rightarrow> relay \<Rightarrow> fault option \<times> relay" where
  "ws_onmessage P ws (RawBuffer dataOrEvent isBinary) s =
     (if isBinary then (None, sendWSBinary P (handler_seq ws) dataOrEvent s)
      else (None, sendWSText P (handler_seq ws) dataOrEvent s))"
| "ws_onmessage P ws (EventString d) s = (None, sendWSText P (handler_seq ws) (TextEncoder_encode d) s)"
| "ws_onmessage P ws (EventBuffer d) s = (None, sendWSBinary P (handler_seq ws) d s)"
| "ws_onmessage P ws Unexpected s = (Some Error, s)"

text \<open>
  Everything that can happen to a relay: a message arrives, the channel closes, or a
  socket that was created fires one of its three events. A socket that was never
  created fires nothing.
\<close>

datatype event =
    Message collaborators bytes
  | ChannelClose
  | SocketOpen nat
  | SocketClose nat S2CWSClosePayload
  | SocketMessage nat ws_message

fun step :: "protocol \<Rightarrow> event \<Rightarrow> relay \<Rightarrow> fault option \<times> relay" where
  "step P (Message env msg) s = onMsg P env msg s"
| "step P ChannelClose s = (None, onClose s)"
| "step P (SocketOpen h) s = (if h < length (wss s) then ws_onopen P (wss s ! h) s else (None, s))"
| "step P (SocketClose h e) s = (if h < length (wss s) then ws_onclose P (wss s ! h) e s else (None, s))"
| "step P (SocketMessage h m) s = (if h < length (wss s) then ws_onmessage P (wss s ! h) m s else (None, s))"

fun run :: "protocol \<Rightarrow> event list \<Rightarrow> relay \<Rightarrow> relay" where
  "run P [] s = s"
| "run P (ev # evs) s = run P evs (snd (step P ev s))"

text \<open>
  A registry is in order when every entry names a socket that was created and whose
  handlers have captured the entry's sequence id.
\<close>

definition registry_ok :: "relay \<Rightarrow> bool" where
  "registry_ok s =
     (\<forall>k h. sockets s k = Some h \<longrightarrow> h < length (wss s) \<and> handler_seq (wss s ! h) = k)"

subsection \<open>Concrete inputs\<close>

text \<open>
  One numbering of the operations, with an excerpt of the status table, for the closed
  examples below. Nothing else depends on it.
\<close>

definition example_protocol :: protocol where
  "example_protocol =
     \<lparr>C2S_HTTPRequest = 0, C2S_WSOpen = 1, C2S_WSSendText = 2, C2S_WSSendBinary = 3,
      C2S_WSClose = 4,
      S2C_HTTPResponseStart = 0, S2C_HTTPResponseChunk = 1, S2C_HTTPResponseEnd = 2,
      S2C_WSOpen = 3, S2C_WSClose = 4, S2C_WSDataText = 5, S2C_WSDataBinary = 6,
      STATUS_CODES = (\<lambda>n. if n = 200 then Some (js ''OK'')
                           else if n = 403 then Some (js ''Forbidden'')
                           else if n = 500 then Some (js ''Internal Server Error'')
                           else None)\<rparr>"

text \<open>The bytes of an ASCII text, and of the text between double quotes.\<close>

definition ascii :: "string \<Rightarrow> bytes" where
  "ascii s = map (\<lambda>c. of_nat (of_char c)) s"

definition quoted :: "string \<Rightarrow> bytes" where
  "quoted s = 0x22 # ascii s @ [0x22]"

text \<open>
  An HTTPRequest frame on sequence id 1 whose payload is the object with the one
  member \<open>remote\<close>, the string \<open>http://example.test/\<close>; and the request it decodes to.
\<close>

definition request_frame :: bytes where
  "request_frame =
     [0, 1, 0] @ ascii ''{'' @ quoted ''remote'' @ ascii '':'' @ quoted ''http://example.test/''
     @ ascii ''}''"

definition request_value :: json where
  "request_value = JObj [(js ''remote'', JStr (js ''http://example.test/''))]"

text \<open>
  A WSOpen frame on sequence id 7 whose payload is the object with the one member
  \<open>url\<close>, the string \<open>ws://example.test/\<close>.
\<close>

definition open_frame :: bytes where
  "open_frame =
     [0, 7, 1] @ ascii ''{'' @ quoted ''url'' @ ascii '':'' @ quoted ''ws://example.test/''
     @ ascii ''}''"

text \<open>
  Collaborators for whom the URLs above parse and the socket is constructed, and whose
  fetch answers 200 with the body chunks \<open>ab\<close> and \<open>cd\<close>.
\<close>

definition fetch_ok :: collaborators where
  "fetch_ok =
     \<lparr>bareFetch = Resolves \<lparr>statusCode = Some 200, statusMessage = Some (js ''OK''),
                              headersDistinct = [], chunks = [ascii ''ab'', ascii ''cd''],
                              stream_fails = False\<rparr>,
      URL_parses = True, TypeError_text = (js ''Invalid URL'', None),
      WebSocket_returns = True, socket_send_throws = False\<rparr>"

text \<open>The same, with a body that yields \<open>ab\<close> and then fails.\<close>

definition fetch_broken_body :: collaborators where
  "fetch_broken_body =
     \<lparr>bareFetch = Resolves \<lparr>statusCode = Some 200, statusMessage = Some (js ''OK''),
                              headersDistinct = [], chunks = [ascii ''ab''],
                              stream_fails = True\<rparr>,
      URL_parses = True, TypeError_text = (js ''Invalid URL'', None),
      WebSocket_returns = True, socket_send_throws = False\<rparr>"

text \<open>The fetch fails with the controlled error of status 403 and code FORBIDDEN.\<close>

definition fetch_forbidden :: collaborators where
  "fetch_forbidden =
     \<lparr>bareFetch = Rejects (ThrownBareError
        \<lparr>err_status = 403,
         err_body = \<lparr>err_code = js ''FORBIDDEN'', err_id = None, err_message = None,
                     err_stack = None\<rparr>\<rparr>),
      URL_parses = True, TypeError_text = (js ''Invalid URL'', None),
      WebSocket_returns = True, socket_send_throws = False\<rparr>"

text \<open>The fetch fails with an \<open>Error\<close> that is no controlled error.\<close>

definition fetch_fault :: collaborators where
  "fetch_fault =
     \<lparr>bareFetch = Rejects (ThrownError (js ''Error'') (js ''connect ECONNREFUSED'') None),
      URL_parses = True, TypeError_text = (js ''Invalid URL'', None),
      WebSocket_returns = True, socket_send_throws = False\<rparr>"

text \<open>The fetch fails with a thrown Symbol, which does not convert to a string.\<close>

definition fetch_symbol :: collaborators where
  "fetch_symbol =
     \<lparr>bareFetch = Rejects (ThrownValue None None),
      URL_parses = True, TypeError_text = (js ''Invalid URL'', None),
      WebSocket_returns = True, socket_send_throws = False\<rparr>"

text \<open>A relay that has received the WSOpen frame above and nothing else.\<close>

definition relay_socket_7 :: relay where
  "relay_socket_7 = run example_protocol [Message fetch_ok open_frame] new_relay"

section \<open>The frame codec: properties\<close>

lemma frame_buf_layout:
  "frame_buf sq opc p = ucast (drop_bit 8 sq) # ucast sq # opc # p"
  by (simp add: frame_buf_def ArrayBuffer_def setUint16_def setUint8_def set_bytes_def
      Let_def numeral_3_eq_3)

lemma simple_buf_layout: "simple_buf sq opc = [ucast (drop_bit 8 sq), ucast sq, opc]"
  by (simp add: simple_buf_def ArrayBuffer_def setUint16_def setUint8_def Let_def
      numeral_3_eq_3)

lemma simple_buf_frame: "simple_buf sq opc = frame_buf sq opc []"
  by (simp add: frame_buf_layout simple_buf_layout)

lemma u16_join_split:
  "push_bit 8 (ucast (ucast (drop_bit 8 w) :: byte)) OR ucast (ucast w :: byte) = (w :: u16)"
  by (rule bit_word_eqI) (auto simp add: bit_simps)

lemma parseMsgInit_header:
  "parseMsgInit (hi # lo # opc # p) =
     Some \<lparr>cursor = 3, seq = push_bit 8 (ucast hi) OR ucast lo, op = opc\<rparr>"
  by (simp add: parseMsgInit_def getUint16_def getUint8_def)

lemma parseMsgInit_short: "length msg < 3 \<Longrightarrow> parseMsgInit msg = None"
  by (auto simp add: parseMsgInit_def getUint16_def getUint8_def split: sum.splits)

lemma parseMsgInit_frame_buf:
  "parseMsgInit (frame_buf sq opc p) = Some \<lparr>cursor = 3, seq = sq, op = opc\<rparr>"
  by (simp add: frame_buf_layout parseMsgInit_header u16_join_split)

text \<open>
  C5. For every sequence id, operation code and payload, the encoded frame is the high
  byte of the sequence id, its low byte, the operation code and then the payload; the
  header decoded from it is the same sequence id and operation code with payload offset
  3, and the bytes of the frame from that offset are the payload.
\<close>

theorem C5_header_roundtrip:
  "frame_buf sq opc p = ucast (drop_bit 8 sq) # ucast sq # opc # p
   \<and> parseMsgInit (frame_buf sq opc p) = Some \<lparr>cursor = 3, seq = sq, op = opc\<rparr>
   \<and> drop 3 (frame_buf sq opc p) = p"
  by (simp add: parseMsgInit_frame_buf) (simp add: frame_buf_layout)

section \<open>The HTTP exchange: properties\<close>

lemma send_body_frames:
  "map Uint8Array cs = map Inr bufs \<Longrightarrow>
   send_body P sq cs fails s =
     (if fails then Some Error else None,
      s\<lparr>sent := sent s @ map (frame_buf sq (S2C_HTTPResponseChunk P)) bufs\<rparr>)"
proof (induction cs arbitrary: bufs s)
  case Nil
  then show ?case by simp
next
  case (Cons c cs)
  then obtain b bs where bufs: "bufs = b # bs" and c: "Uint8Array c = Inr b"
    and rest: "map Uint8Array cs = map Inr bs"
    by (cases bufs) auto
  show ?case
    by (simp add: bufs c Cons.IH [OF rest] sendHTTPResponseChunk_def send_def)
qed

lemma Uint8Array_Buffers: "map Uint8Array (map Buffer bs) = map Inr bs"
  by (induction bs) auto

lemma send_body_buffers:
  "send_body P sq (map Buffer bs) fails s =
     (if fails then Some Error else None,
      s\<lparr>sent := sent s @ map (frame_buf sq (S2C_HTTPResponseChunk P)) bs\<rparr>)"
  by (rule send_body_frames [OF Uint8Array_Buffers])

lemma events_off_on: "events_off h (events_on h s) = s"
  by (simp add: events_off_def events_on_def)

lemma handleHTTPRequest_resolves:
  "await_bareFetch env v = Resolves r \<Longrightarrow>
   handleHTTPRequest P env v s =
     (Inr \<lparr>payload = response_payload r, body = map Buffer (chunks r),
           body_fails = stream_fails r\<rparr>,
      s\<lparr>controllers := Suc (controllers s)\<rparr>)"
  by (simp add: handleHTTPRequest_def Let_def events_off_on)

lemma handleHTTPRequest_controlled:
  "await_bareFetch env v = Rejects (ThrownBareError b) \<Longrightarrow>
   handleHTTPRequest P env v s =
     (Inr (bareErrorToResponse P b),
      s\<lparr>controllers := Suc (controllers s), listeners := listeners s @ [controllers s]\<rparr>)"
  by (simp add: handleHTTPRequest_def Let_def events_on_def)

lemma handleHTTPRequest_fault:
  "await_bareFetch env v = Rejects e \<Longrightarrow> \<forall>b. e \<noteq> ThrownBareError b \<Longrightarrow>
   handleHTTPRequest P env v s = (Inl e, s\<lparr>controllers := Suc (controllers s)\<rparr>)"
  by (cases e) (simp_all add: handleHTTPRequest_def Let_def events_off_on)

lemma error_response_body: "map Uint8Array (body (bareErrorToResponse P b)) = map Inr [[]]"
  by (simp add: bareErrorToResponse_def stringify_BareErrorBody_def json_object_def)

lemma onMsg_is_HTTPRequest:
  "parseMsgInit msg = Some init \<Longrightarrow> op init = C2S_HTTPRequest P \<Longrightarrow>
   onMsg P env msg s = onMsg_HTTPRequest P env msg init s"
  by (simp add: onMsg_def)

lemma parseMsgInit_cursor: "parseMsgInit msg = Some init \<Longrightarrow> cursor init = 3"
  by (auto simp add: parseMsgInit_def split: sum.splits)

lemmas send_defs = sendHTTPResponseStart_def sendJSONRes_def sendHTTPResponseEnd_def
  sendSimpleRes_def send_def

text \<open>
  The four ways an HTTPRequest frame with a decodable payload is handled: dropped;
  answered from a response; answered from what was thrown; and left unanswered when
  what was thrown does not convert to a string.
\<close>

lemma http_falsy:
  assumes "parseMsgInit msg = Some init" and "op init = C2S_HTTPRequest P"
    and "tryParseJSONPayload (drop 3 msg) = Inr (Some v)" and "\<not> truthy v"
  shows "onMsg P env msg s = (None, s)"
  using assms parseMsgInit_cursor [OF assms(1)]
  by (simp add: onMsg_def onMsg_HTTPRequest_def)

lemma http_resolved:
  assumes "parseMsgInit msg = Some init" and "op init = C2S_HTTPRequest P"
    and "tryParseJSONPayload (drop 3 msg) = Inr (Some v)" and "truthy v"
    and "await_bareFetch env v = Resolves r"
  shows "onMsg P env msg s =
     (if stream_fails r then Some Error else None,
      s\<lparr>controllers := Suc (controllers s),
        sent := sent s
          @ frame_buf (seq init) (S2C_HTTPResponseStart P)
              (TextEncoder_encode (stringify_HTTPResponsePayload (response_payload r)))
          # map (frame_buf (seq init) (S2C_HTTPResponseChunk P)) (chunks r)
          @ (if stream_fails r then [] else [simple_buf (seq init) (S2C_HTTPResponseEnd P)])\<rparr>)"
  using assms(3,4) parseMsgInit_cursor [OF assms(1)]
  by (simp add: onMsg_is_HTTPRequest [OF assms(1,2)] onMsg_HTTPRequest_def
      handleHTTPRequest_resolves [OF assms(5)] send_body_buffers send_defs)

lemma http_rejected:
  assumes "parseMsgInit msg = Some init" and "op init = C2S_HTTPRequest P"
    and "tryParseJSONPayload (drop 3 msg) = Inr (Some v)" and "truthy v"
    and "await_bareFetch env v = Rejects e" and "as_BareError e = Inr b"
  shows "onMsg P env msg s =
     (None,
      s\<lparr>controllers := Suc (controllers s),
        listeners := (case e of ThrownBareError x \<Rightarrow> listeners s @ [controllers s] | _ \<Rightarrow> listeners s),
        sent := sent s
          @ [frame_buf (seq init) (S2C_HTTPResponseStart P)
               (TextEncoder_encode (stringify_HTTPResponsePayload (payload (bareErrorToResponse P b)))),
             frame_buf (seq init) (S2C_HTTPResponseChunk P) [],
             simple_buf (seq init) (S2C_HTTPResponseEnd P)]\<rparr>)"
proof (cases "\<exists>x. e = ThrownBareError x")
  case True
  then obtain x where x: "e = ThrownBareError x" by blast
  with assms(6) have b: "x = b" by simp
  have f: "body_fails (bareErrorToResponse P b) = False"
    by (simp add: bareErrorToResponse_def)
  show ?thesis
    using assms(3,4) parseMsgInit_cursor [OF assms(1)]
    by (simp add: onMsg_is_HTTPRequest [OF assms(1,2)] onMsg_HTTPRequest_def x b
        handleHTTPRequest_controlled [OF assms(5) [unfolded x b]]
        send_body_frames [OF error_response_body] f send_defs)
next
  case False
  then have n: "\<forall>x. e \<noteq> ThrownBareError x" by blast
  have f: "body_fails (bareErrorToResponse P b) = False"
    by (simp add: bareErrorToResponse_def)
  have l: "(case e of ThrownBareError x \<Rightarrow> listeners s @ [controllers s] | _ \<Rightarrow> listeners s) = listeners s"
    using n by (cases e) auto
  show ?thesis
    using assms(3,4) parseMsgInit_cursor [OF assms(1)]
    by (simp add: onMsg_is_HTTPRequest [OF assms(1,2)] onMsg_HTTPRequest_def
        handleHTTPRequest_fault [OF assms(5) n] assms(6) l
        send_body_frames [OF error_response_body] f send_defs)
qed

lemma http_unconvertible:
  assumes "parseMsgInit msg = Some init" and "op init = C2S_HTTPRequest P"
    and "tryParseJSONPayload (drop 3 msg) = Inr (Some v)" and "truthy v"
    and "await_bareFetch env v = Rejects e" and "as_BareError e = Inl f"
  shows "onMsg P env msg s = (Some f, s\<lparr>controllers := Suc (controllers s)\<rparr>)"
proof -
  have n: "\<forall>x. e \<noteq> ThrownBareError x"
    using assms(6) by auto
  show ?thesis
    using assms(3,4) parseMsgInit_cursor [OF assms(1)]
    by (simp add: onMsg_is_HTTPRequest [OF assms(1,2)] onMsg_HTTPRequest_def
        handleHTTPRequest_fault [OF assms(5) n] assms(6))
qed


text \<open>
  C1 (as amended). Take an HTTPRequest frame whose payload decodes as JSON. If the
  value is falsy the frame is dropped: nothing is sent and the relay is as it was. If
  it is truthy and the fetch resolves to a response whose body is read to its end,
  nothing escapes the handler and the frames sent are one HTTPResponseStart with the
  head of the response, one HTTPResponseChunk for each chunk of the body in the order
  of the chunks, and one HTTPResponseEnd. If it is truthy and the fetch, or the making
  of its URL, throws a controlled error, an \<open>Error\<close> or a value that converts to a
  string, nothing escapes the handler and the frames sent are one HTTPResponseStart
  with the head made from what was thrown, one HTTPResponseChunk and one
  HTTPResponseEnd. All frames are on the sequence id of the request.
\<close>

theorem C1_http_frame_sequence:
  assumes "parseMsgInit msg = Some init" and "op init = C2S_HTTPRequest P"
    and "tryParseJSONPayload (drop 3 msg) = Inr (Some v)"
  shows "(\<not> truthy v \<longrightarrow> onMsg P env msg s = (None, s))
   \<and> (\<forall>r. truthy v \<and> await_bareFetch env v = Resolves r \<and> \<not> stream_fails r \<longrightarrow>
         fst (onMsg P env msg s) = None \<and>
         sent (snd (onMsg P env msg s)) =
           sent s
           @ [frame_buf (seq init) (S2C_HTTPResponseStart P)
                (TextEncoder_encode (stringify_HTTPResponsePayload (response_payload r)))]
           @ map (frame_buf (seq init) (S2C_HTTPResponseChunk P)) (chunks r)
           @ [simple_buf (seq init) (S2C_HTTPResponseEnd P)])
   \<and> (\<forall>e b. truthy v \<and> await_bareFetch env v = Rejects e \<and> as_BareError e = Inr b \<longrightarrow>
         fst (onMsg P env msg s) = None \<and>
         (\<exists>c. sent (snd (onMsg P env msg s)) =
            sent s
            @ [frame_buf (seq init) (S2C_HTTPResponseStart P)
                 (TextEncoder_encode (stringify_HTTPResponsePayload
                    (payload (bareErrorToResponse P b)))),
               frame_buf (seq init) (S2C_HTTPResponseChunk P) c,
               simple_buf (seq init) (S2C_HTTPResponseEnd P)]))"
proof (intro conjI allI impI)
  assume "\<not> truthy v"
  then show "onMsg P env msg s = (None, s)"
    by (rule http_falsy [OF assms])
next
  fix r
  assume a: "truthy v \<and> await_bareFetch env v = Resolves r \<and> \<not> stream_fails r"
  then have m: "onMsg P env msg s =
     (if stream_fails r then Some Error else None,
      s\<lparr>controllers := Suc (controllers s),
        sent := sent s
          @ frame_buf (seq init) (S2C_HTTPResponseStart P)
              (TextEncoder_encode (stringify_HTTPResponsePayload (response_payload r)))
          # map (frame_buf (seq init) (S2C_HTTPResponseChunk P)) (chunks r)
          @ (if stream_fails r then [] else [simple_buf (seq init) (S2C_HTTPResponseEnd P)])\<rparr>)"
    by (intro http_resolved [OF assms]) simp_all
  from a show "fst (onMsg P env msg s) = None" by (simp add: m)
  from a show "sent (snd (onMsg P env msg s)) =
           sent s
           @ [frame_buf (seq init) (S2C_HTTPResponseStart P)
                (TextEncoder_encode (stringify_HTTPResponsePayload (response_payload r)))]
           @ map (frame_buf (seq init) (S2C_HTTPResponseChunk P)) (chunks r)
           @ [simple_buf (seq init) (S2C_HTTPResponseEnd P)]"
    by (simp add: m)
next
  fix e b
  assume a: "truthy v \<and> await_bareFetch env v = Rejects e \<and> as_BareError e = Inr b"
  then have t: "truthy v" and f: "await_bareFetch env v = Rejects e" and c: "as_BareError e = Inr b"
    by simp_all
  note m = http_rejected [OF assms t f c, of s]
  show "fst (onMsg P env msg s) = None" by (simp add: m)
  show "\<exists>c. sent (snd (onMsg P env msg s)) =
            sent s
            @ [frame_buf (seq init) (S2C_HTTPResponseStart P)
                 (TextEncoder_encode (stringify_HTTPResponsePayload
                    (payload (bareErrorToResponse P b)))),
               frame_buf (seq init) (S2C_HTTPResponseChunk P) c,
               simple_buf (seq init) (S2C_HTTPResponseEnd P)]"
    by (rule exI [of _ "[]"]) (simp add: m)
qed

lemmas text_eval = TextDecoder_decode_def utf8_lead_def strip_bom_def utf16_units_def
lemmas json_eval = tryParseJSONPayload_def JSON_parse_def is_ws_def is_digit_def lex_number_def
  lex_fraction_def lex_exponent_def digits_val_def
lemmas input_eval = request_frame_def request_value_def open_frame_def ascii_def quoted_def js_def

lemma parse_empty_object: "tryParseJSONPayload [0x7B, 0x7D] = Inr (Some (JObj []))"
  by (simp add: text_eval json_eval)

lemma parse_open_brace: "tryParseJSONPayload [0x7B] = Inr None"
  by (simp add: text_eval json_eval)

lemma parse_zero: "tryParseJSONPayload [0x30] = Inr (Some (JNum 0 0))"
  by (simp add: text_eval json_eval)

text \<open>The request frame: its header, its payload, and the fetch it leads to.\<close>

lemma request_header: "parseMsgInit request_frame = Some \<lparr>cursor = 3, seq = 1, op = 0\<rparr>"
  by (simp add: request_frame_def parseMsgInit_header)

lemma request_payload:
  "tryParseJSONPayload (drop 3 request_frame) = Inr (Some request_value)"
  by (simp add: input_eval text_eval json_eval)

lemma request_truthy: "truthy request_value"
  by (simp add: request_value_def)

lemmas url_eval = absolute_URL_candidate_def has_scheme_def is_alpha_def is_digit_def js_def

lemma request_fetch: "URL_parses env \<Longrightarrow> await_bareFetch env request_value = bareFetch env"
  by (simp add: await_bareFetch_def request_value_def url_eval)

lemma request_op: "op \<lparr>cursor = 3, seq = 1, op = 0\<rparr> = C2S_HTTPRequest example_protocol"
  by (simp add: example_protocol_def)

lemma example_codes:
  "S2C_HTTPResponseStart example_protocol = 0" "S2C_HTTPResponseChunk example_protocol = 1"
  "S2C_HTTPResponseEnd example_protocol = 2" "S2C_WSOpen example_protocol = 3"
  "S2C_WSClose example_protocol = 4" "S2C_WSDataText example_protocol = 5"
  "S2C_WSDataBinary example_protocol = 6"
  by (simp_all add: example_protocol_def)

text \<open>
  The theorem at the success scenario of the spec: the request for
  \<open>http://example.test/\<close> on sequence id 1, answered with status 200 and the body
  chunks \<open>ab\<close>, \<open>cd\<close>, gives a start frame, two chunk frames in that order and an end
  frame.
\<close>

theorem C1_http_frame_sequence_witness:
  "parseMsgInit request_frame = Some \<lparr>cursor = 3, seq = 1, op = 0\<rparr>
   \<and> tryParseJSONPayload (drop 3 request_frame) = Inr (Some request_value)
   \<and> truthy request_value
   \<and> await_bareFetch fetch_ok request_value = bareFetch fetch_ok
   \<and> fst (onMsg example_protocol fetch_ok request_frame new_relay) = None
   \<and> sent (snd (onMsg example_protocol fetch_ok request_frame new_relay)) =
       [frame_buf 1 0 (TextEncoder_encode (stringify_HTTPResponsePayload
          \<lparr>status = 200, statusText = js ''OK'', headers = []\<rparr>)),
        frame_buf 1 1 (ascii ''ab''), frame_buf 1 1 (ascii ''cd''), simple_buf 1 2]"
proof -
  have u: "URL_parses fetch_ok" by (simp add: fetch_ok_def)
  have f: "await_bareFetch fetch_ok request_value =
      Resolves \<lparr>statusCode = Some 200, statusMessage = Some (js ''OK''),
                headersDistinct = [], chunks = [ascii ''ab'', ascii ''cd''],
                stream_fails = False\<rparr>"
    by (simp add: request_fetch [OF u]) (simp add: fetch_ok_def)
  have p: "response_payload \<lparr>statusCode = Some 200, statusMessage = Some (js ''OK''),
                headersDistinct = [], chunks = [ascii ''ab'', ascii ''cd''],
                stream_fails = False\<rparr> = \<lparr>status = 200, statusText = js ''OK'', headers = []\<rparr>"
    by (simp add: response_payload_def response_headers_def List.map_filter_simps)
  from C1_http_frame_sequence [OF request_header request_op request_payload,
      of fetch_ok new_relay] request_truthy f
  have "fst (onMsg example_protocol fetch_ok request_frame new_relay) = None \<and>
     sent (snd (onMsg example_protocol fetch_ok request_frame new_relay)) =
       sent new_relay
       @ [frame_buf 1 (S2C_HTTPResponseStart example_protocol)
            (TextEncoder_encode (stringify_HTTPResponsePayload
              \<lparr>status = 200, statusText = js ''OK'', headers = []\<rparr>))]
       @ map (frame_buf 1 (S2C_HTTPResponseChunk example_protocol)) [ascii ''ab'', ascii ''cd'']
       @ [simple_buf 1 (S2C_HTTPResponseEnd example_protocol)]"
    by (simp add: p)
  then show ?thesis
    using request_header request_payload request_truthy request_fetch [OF u]
    by (simp add: example_codes new_relay_def)
qed

text \<open>
  Three exchanges outside the theorem. A body that fails part way: the start frame
  and the chunks read so far are sent, no end frame, and the error of the stream
  escapes the handler. A thrown Symbol: no frame, and a TypeError escapes. A payload
  without \<open>remote\<close>: \<open>new URL\<close> throws before the fetch is called, whatever the
  fetch would have done, and the exchange is answered with status 500.
\<close>

lemma http_broken_body_scenario:
  "onMsg example_protocol fetch_broken_body request_frame new_relay =
     (Some Error,
      new_relay\<lparr>controllers := 1,
        sent := [frame_buf 1 0 (TextEncoder_encode (stringify_HTTPResponsePayload
                   \<lparr>status = 200, statusText = js ''OK'', headers = []\<rparr>)),
                 frame_buf 1 1 (ascii ''ab'')]\<rparr>)"
proof -
  have u: "URL_parses fetch_broken_body" by (simp add: fetch_broken_body_def)
  have f: "await_bareFetch fetch_broken_body request_value =
      Resolves \<lparr>statusCode = Some 200, statusMessage = Some (js ''OK''),
                headersDistinct = [], chunks = [ascii ''ab''], stream_fails = True\<rparr>"
    by (simp add: request_fetch [OF u]) (simp add: fetch_broken_body_def)
  show ?thesis
    by (simp add: http_resolved [OF request_header request_op request_payload request_truthy f]
        response_payload_def response_headers_def List.map_filter_simps example_codes)
      (simp add: new_relay_def)
qed

lemma http_symbol_scenario:
  "onMsg example_protocol fetch_symbol request_frame new_relay =
     (Some TypeError, new_relay\<lparr>controllers := 1\<rparr>)"
proof -
  have u: "URL_parses fetch_symbol" by (simp add: fetch_symbol_def)
  have f: "await_bareFetch fetch_symbol request_value = Rejects (ThrownValue None None)"
    by (simp add: request_fetch [OF u]) (simp add: fetch_symbol_def)
  have c: "as_BareError (ThrownValue None None) = Inl TypeError" by simp
  show ?thesis
    by (simp add: http_unconvertible [OF request_header request_op request_payload request_truthy f c])
      (simp add: new_relay_def)
qed

lemma no_remote_fetch: "await_bareFetch env (JObj []) = Rejects (TypeError_thrown env)"
  by (simp add: await_bareFetch_def url_eval)

lemma http_no_remote_scenario:
  "onMsg example_protocol fetch_forbidden [0, 1, 0, 0x7B, 0x7D] new_relay =
     (None,
      new_relay\<lparr>controllers := 1,
        sent := [frame_buf 1 0 (TextEncoder_encode (stringify_HTTPResponsePayload
                   \<lparr>status = 500, statusText = js ''Internal Server Error'', headers = []\<rparr>)),
                 frame_buf 1 1 [], simple_buf 1 2]\<rparr>)"
proof -
  have h: "parseMsgInit [0, 1, 0, 0x7B, 0x7D] = Some \<lparr>cursor = 3, seq = 1, op = 0\<rparr>"
    by (simp add: parseMsgInit_header)
  have p: "tryParseJSONPayload (drop 3 [0, 1, 0, 0x7B, 0x7D]) = Inr (Some (JObj []))"
    by (simp add: parse_empty_object)
  have c: "as_BareError (TypeError_thrown fetch_forbidden) =
      Inr \<lparr>err_status = 500,
           err_body = \<lparr>err_code = js ''UNKNOWN'', err_id = Some (js ''error.'' @ js ''TypeError''),
                       err_message = Some (js ''Invalid URL''), err_stack = None\<rparr>\<rparr>"
    by (simp add: TypeError_thrown_def fetch_forbidden_def)
  have b: "payload (bareErrorToResponse example_protocol
      \<lparr>err_status = 500,
       err_body = \<lparr>err_code = js ''UNKNOWN'', err_id = Some (js ''error.'' @ js ''TypeError''),
                   err_message = Some (js ''Invalid URL''), err_stack = None\<rparr>\<rparr>) =
      \<lparr>status = 500, statusText = js ''Internal Server Error'', headers = []\<rparr>"
    by (simp add: bareErrorToResponse_def example_protocol_def)
  show ?thesis
    by (simp add: http_rejected [OF h request_op p _ no_remote_fetch c] b TypeError_thrown_def
        example_codes)
      (simp add: new_relay_def)
qed

text \<open>
  C1 as stated fails, in three ways. The payload \<open>0\<close> decodes as JSON, and the
  HTTPRequest frame that carries it is dropped by the guard \<open>if (!reqPayload) return\<close>
  with no frame at all. A fetch that succeeds with a body that yields \<open>ab\<close> and then
  fails gives a start frame and a chunk frame and no end frame. A fetch that fails
  with a thrown Symbol gives no frame.
\<close>

theorem C1_frame_sequence_counterexample:
  "tryParseJSONPayload (drop 3 [0, 1, 0, 0x30]) = Inr (Some (JNum 0 0))
   \<and> parseMsgInit [0, 1, 0, 0x30] = Some \<lparr>cursor = 3, seq = 1, op = C2S_HTTPRequest example_protocol\<rparr>
   \<and> onMsg example_protocol fetch_ok [0, 1, 0, 0x30] new_relay = (None, new_relay)
   \<and> tryParseJSONPayload (drop 3 request_frame) = Inr (Some request_value)
   \<and> await_bareFetch fetch_broken_body request_value = bareFetch fetch_broken_body
   \<and> onMsg example_protocol fetch_broken_body request_frame new_relay =
       (Some Error,
        new_relay\<lparr>controllers := 1,
          sent := [frame_buf 1 0 (TextEncoder_encode (stringify_HTTPResponsePayload
                     \<lparr>status = 200, statusText = js ''OK'', headers = []\<rparr>)),
                   frame_buf 1 1 (ascii ''ab'')]\<rparr>)
   \<and> await_bareFetch fetch_symbol request_value = bareFetch fetch_symbol
   \<and> onMsg example_protocol fetch_symbol request_frame new_relay =
       (Some TypeError, new_relay\<lparr>controllers := 1\<rparr>)"
proof -
  have h: "parseMsgInit [0, 1, 0, 0x30] = Some \<lparr>cursor = 3, seq = 1, op = 0\<rparr>"
    by (simp add: parseMsgInit_header)
  have p: "tryParseJSONPayload (drop 3 [0, 1, 0, 0x30]) = Inr (Some (JNum 0 0))"
    by (simp add: parse_zero)
  have d: "onMsg example_protocol fetch_ok [0, 1, 0, 0x30] new_relay = (None, new_relay)"
    by (rule http_falsy [OF h request_op p]) simp
  have h': "parseMsgInit [0, 1, 0, 0x30] = Some \<lparr>cursor = 3, seq = 1, op = C2S_HTTPRequest example_protocol\<rparr>"
    using h by (simp add: example_protocol_def)
  have u: "URL_parses fetch_broken_body" "URL_parses fetch_symbol"
    by (simp_all add: fetch_broken_body_def fetch_symbol_def)
  show ?thesis
    by (intro conjI p h' d request_payload request_fetch u http_broken_body_scenario
        http_symbol_scenario)
qed

text \<open>
  C2 (as amended). In every HTTP exchange in which the fetch fails with a controlled
  error, nothing escapes the handler and it sends, on the sequence id of the request,
  an HTTPResponseStart with the status of the error (its status text from the table,
  no headers), then one HTTPResponseChunk for the one chunk of the body made from the
  error, then an HTTPResponseEnd.
\<close>

theorem C2_controlled_failure_frames:
  assumes "parseMsgInit msg = Some init" and "op init = C2S_HTTPRequest P"
    and "tryParseJSONPayload (drop 3 msg) = Inr (Some v)" and "truthy v"
    and "await_bareFetch env v = Rejects (ThrownBareError b)"
  shows "fst (onMsg P env msg s) = None \<and>
     (\<exists>c. sent (snd (onMsg P env msg s)) =
        sent s
        @ [frame_buf (seq init) (S2C_HTTPResponseStart P)
             (TextEncoder_encode (stringify_HTTPResponsePayload
                \<lparr>status = err_status b,
                 statusText = (case STATUS_CODES P (err_status b) of None \<Rightarrow> [] | Some t \<Rightarrow> t),
                 headers = []\<rparr>)),
           frame_buf (seq init) (S2C_HTTPResponseChunk P) c,
           simple_buf (seq init) (S2C_HTTPResponseEnd P)])"
proof -
  have c: "as_BareError (ThrownBareError b) = Inr b" by simp
  note m = http_rejected [OF assms c, of s]
  show ?thesis
    by (intro conjI exI [of _ "[]"]) (simp_all add: m bareErrorToResponse_def)
qed

lemma forbidden_fetch:
  "await_bareFetch fetch_forbidden request_value = Rejects (ThrownBareError
     \<lparr>err_status = 403,
      err_body = \<lparr>err_code = js ''FORBIDDEN'', err_id = None, err_message = None, err_stack = None\<rparr>\<rparr>)"
proof -
  have u: "URL_parses fetch_forbidden" by (simp add: fetch_forbidden_def)
  show ?thesis
    by (simp add: request_fetch [OF u]) (simp add: fetch_forbidden_def)
qed

text \<open>
  The theorem at the scenario of the spec: the request for \<open>http://example.test/\<close>,
  which the fetch refuses with status 403 and code FORBIDDEN.
\<close>

theorem C2_controlled_failure_frames_witness:
  "parseMsgInit request_frame = Some \<lparr>cursor = 3, seq = 1, op = 0\<rparr>
   \<and> tryParseJSONPayload (drop 3 request_frame) = Inr (Some request_value)
   \<and> truthy request_value
   \<and> await_bareFetch fetch_forbidden request_value = Rejects (ThrownBareError
       \<lparr>err_status = 403,
        err_body = \<lparr>err_code = js ''FORBIDDEN'', err_id = None, err_message = None, err_stack = None\<rparr>\<rparr>)
   \<and> fst (onMsg example_protocol fetch_forbidden request_frame new_relay) = None
   \<and> (\<exists>c. sent (snd (onMsg example_protocol fetch_forbidden request_frame new_relay)) =
        [frame_buf 1 0 (TextEncoder_encode (stringify_HTTPResponsePayload
            \<lparr>status = 403, statusText = js ''Forbidden'', headers = []\<rparr>)),
         frame_buf 1 1 c, simple_buf 1 2])"
proof -
  from C2_controlled_failure_frames
    [OF request_header request_op request_payload request_truthy forbidden_fetch, of new_relay]
  show ?thesis
    using request_header request_payload request_truthy forbidden_fetch
    by (simp add: example_protocol_def new_relay_def)
qed

text \<open>
  C2 as stated fails: in that scenario the headers of the frames sent are those of a
  start, a chunk and an end frame on sequence id 1. The body of the response made from
  the error is a stream of one chunk, and the loop of \<open>onMsg\<close> sends a frame for it.
\<close>

theorem C2_chunk_frame_counterexample:
  "await_bareFetch fetch_forbidden request_value = Rejects (ThrownBareError
     \<lparr>err_status = 403,
      err_body = \<lparr>err_code = js ''FORBIDDEN'', err_id = None, err_message = None, err_stack = None\<rparr>\<rparr>)
   \<and> map parseMsgInit (sent (snd (onMsg example_protocol fetch_forbidden request_frame new_relay))) =
     [Some \<lparr>cursor = 3, seq = 1, op = S2C_HTTPResponseStart example_protocol\<rparr>,
      Some \<lparr>cursor = 3, seq = 1, op = S2C_HTTPResponseChunk example_protocol\<rparr>,
      Some \<lparr>cursor = 3, seq = 1, op = S2C_HTTPResponseEnd example_protocol\<rparr>]"
proof -
  have c: "as_BareError (ThrownBareError
     \<lparr>err_status = 403,
      err_body = \<lparr>err_code = js ''FORBIDDEN'', err_id = None, err_message = None, err_stack = None\<rparr>\<rparr>)
     = Inr \<lparr>err_status = 403,
      err_body = \<lparr>err_code = js ''FORBIDDEN'', err_id = None, err_message = None, err_stack = None\<rparr>\<rparr>"
    by simp
  show ?thesis
    by (simp add: forbidden_fetch
        http_rejected [OF request_header request_op request_payload request_truthy forbidden_fetch c]
        parseMsgInit_frame_buf simple_buf_frame new_relay_def)
qed

text \<open>
  The listeners of \<open>close\<close> after an exchange: as before it when the fetch returned or
  anything but a controlled error was thrown, and one more when the fetch failed with a
  controlled error.
\<close>

lemma http_exchange_listeners:
  assumes "parseMsgInit msg = Some init" and "op init = C2S_HTTPRequest P"
    and "tryParseJSONPayload (drop 3 msg) = Inr (Some v)" and "truthy v"
  shows "listeners (snd (onMsg P env msg s)) =
     (case await_bareFetch env v of
        Rejects (ThrownBareError b) \<Rightarrow> listeners s @ [controllers s]
      | _ \<Rightarrow> listeners s)"
proof (cases "await_bareFetch env v")
  case (Resolves r)
  then show ?thesis
    by (simp add: http_resolved [OF assms Resolves])
next
  case (Rejects e)
  show ?thesis
  proof (cases "as_BareError e")
    case (Inl f)
    with Rejects show ?thesis
      by (cases e rule: as_BareError.cases) (simp_all add: http_unconvertible [OF assms Rejects Inl])
  next
    case (Inr b)
    with Rejects show ?thesis
      by (cases e) (simp_all add: http_rejected [OF assms Rejects Inr])
  qed
qed

text \<open>
  C3. The claim is that the hook registered on \<open>close\<close> at the start of an exchange is
  deregistered when the exchange completes, in all three outcomes of the fetch. In
  the code the listeners are as before after a success and after an uncontrolled fault,
  but the \<open>return\<close> for a controlled error leaves the hook registered: the request for
  \<open>http://example.test/\<close>, which the fetch refuses with the controlled error 403,
  takes a relay with no listener to one with a listener.
\<close>

theorem C3_controlled_failure_leaves_listener:
  "listeners new_relay = []
   \<and> tryParseJSONPayload (drop 3 request_frame) = Inr (Some request_value)
   \<and> await_bareFetch fetch_ok request_value = bareFetch fetch_ok
   \<and> listeners (snd (onMsg example_protocol fetch_ok request_frame new_relay)) = []
   \<and> await_bareFetch fetch_fault request_value = bareFetch fetch_fault
   \<and> listeners (snd (onMsg example_protocol fetch_fault request_frame new_relay)) = []
   \<and> await_bareFetch fetch_forbidden request_value = bareFetch fetch_forbidden
   \<and> listeners (snd (onMsg example_protocol fetch_forbidden request_frame new_relay)) = [0]"
proof -
  note l = http_exchange_listeners [OF request_header request_op request_payload request_truthy,
      of _ new_relay]
  have u: "URL_parses fetch_ok" "URL_parses fetch_fault" "URL_parses fetch_forbidden"
    by (simp_all add: fetch_ok_def fetch_fault_def fetch_forbidden_def)
  have a: "await_bareFetch fetch_ok request_value = bareFetch fetch_ok"
    "await_bareFetch fetch_fault request_value = bareFetch fetch_fault"
    "await_bareFetch fetch_forbidden request_value = bareFetch fetch_forbidden"
    by (simp_all add: request_fetch u)
  have "listeners (snd (onMsg example_protocol fetch_ok request_frame new_relay)) = []"
    by (simp add: l a) (simp add: fetch_ok_def new_relay_def)
  moreover have "listeners (snd (onMsg example_protocol fetch_fault request_frame new_relay)) = []"
    by (simp add: l a) (simp add: fetch_fault_def new_relay_def)
  moreover have "listeners (snd (onMsg example_protocol fetch_forbidden request_frame new_relay)) = [0]"
    by (simp add: l a) (simp add: fetch_forbidden_def new_relay_def)
  ultimately show ?thesis
    using a request_payload by (simp add: new_relay_def)
qed

section \<open>Dropped messages and payload decoding: properties\<close>

text \<open>
  C6. For every buffer shorter than three bytes the header decodes to none, and the
  message handler returns with nothing thrown and the state as it was: no frame sent,
  the registry and everything else unchanged.
\<close>

theorem C6_short_buffer_dropped:
  "length msg < 3 \<Longrightarrow> parseMsgInit msg = None \<and> onMsg P env msg s = (None, s)"
  by (simp add: parseMsgInit_short onMsg_def)

text \<open>The theorem at a buffer of two bytes.\<close>

theorem C6_short_buffer_dropped_witness:
  "length [0, 1 :: byte] < 3 \<and> parseMsgInit [0, 1] = None \<and>
   onMsg example_protocol fetch_ok [0, 1] new_relay = (None, new_relay)"
  using C6_short_buffer_dropped [of "[0, 1]" example_protocol fetch_ok new_relay] by simp

text \<open>
  C9. For a table whose five inbound codes are distinct, every WSSendText, WSSendBinary
  or WSClose frame whose sequence id has no socket in the registry leaves the handler
  with nothing thrown and the state as it was: no frame sent, registry and sockets
  unchanged.
\<close>

theorem C9_unknown_sequence_ignored:
  assumes "parseMsgInit msg = Some init"
    and "distinct [C2S_HTTPRequest P, C2S_WSOpen P, C2S_WSSendText P, C2S_WSSendBinary P, C2S_WSClose P]"
    and "op init = C2S_WSSendText P \<or> op init = C2S_WSSendBinary P \<or> op init = C2S_WSClose P"
    and "sockets s (seq init) = None"
  shows "onMsg P env msg s = (None, s)"
  using assms by (auto simp add: onMsg_def)

text \<open>The theorem at a WSSendText frame for sequence id 9 on a relay with no socket.\<close>

theorem C9_unknown_sequence_ignored_witness:
  "parseMsgInit [0, 9, 2, 0x68, 0x69] = Some \<lparr>cursor = 3, seq = 9, op = 2\<rparr> \<and>
   distinct [C2S_HTTPRequest example_protocol, C2S_WSOpen example_protocol,
     C2S_WSSendText example_protocol, C2S_WSSendBinary example_protocol,
     C2S_WSClose example_protocol] \<and>
   op \<lparr>cursor = 3, seq = 9, op = 2\<rparr> = C2S_WSSendText example_protocol \<and>
   sockets new_relay (seq \<lparr>cursor = 3, seq = 9, op = 2\<rparr>) = None \<and>
   onMsg example_protocol fetch_ok [0, 9, 2, 0x68, 0x69] new_relay = (None, new_relay)"
proof -
  have h1: "parseMsgInit [0, 9, 2, 0x68, 0x69] = Some \<lparr>cursor = 3, seq = 9, op = 2\<rparr>"
    by (simp add: parseMsgInit_header)
  have h2: "distinct [C2S_HTTPRequest example_protocol, C2S_WSOpen example_protocol,
     C2S_WSSendText example_protocol, C2S_WSSendBinary example_protocol,
     C2S_WSClose example_protocol]"
    by (simp add: example_protocol_def)
  have h3: "op \<lparr>cursor = 3, seq = 9, op = 2\<rparr> = C2S_WSSendText example_protocol
     \<or> op \<lparr>cursor = 3, seq = 9, op = 2\<rparr> = C2S_WSSendBinary example_protocol
     \<or> op \<lparr>cursor = 3, seq = 9, op = 2\<rparr> = C2S_WSClose example_protocol"
    by (simp add: example_protocol_def)
  have h4: "sockets new_relay (seq \<lparr>cursor = 3, seq = 9, op = 2\<rparr>) = None"
    by (simp add: new_relay_def)
  from C9_unknown_sequence_ignored [OF h1 h2 h3 h4, of fetch_ok]
  show ?thesis using h1 h2 h4 by (simp add: example_protocol_def)
qed

lemma JSON_parse_faults: "JSON_parse text = Inl e \<Longrightarrow> e = SyntaxError"
  by (auto simp add: JSON_parse_def split: option.splits pstate.splits)

text \<open>
  C7 (as amended). For every payload, \<open>tryParseJSONPayload\<close> raises nothing: when the
  text decoded from the payload, malformed UTF-8 replaced by U+FFFD, is parsed by
  \<open>JSON.parse\<close> it returns the value that \<open>JSON.parse\<close> returned, and when
  \<open>JSON.parse\<close> rejects the text it returns none; so it returns none exactly when the
  decoded text is not valid JSON.
\<close>

theorem C7_decode_never_raises:
  "tryParseJSONPayload payloadRaw =
     (case JSON_parse (TextDecoder_decode payloadRaw) of
        Inl e \<Rightarrow> Inr None
      | Inr v \<Rightarrow> Inr (Some v))
   \<and> (\<exists>r. tryParseJSONPayload payloadRaw = Inr r)
   \<and> (tryParseJSONPayload payloadRaw = Inr None) =
       (JSON_parse (TextDecoder_decode payloadRaw) = Inl SyntaxError)"
proof (cases "JSON_parse (TextDecoder_decode payloadRaw)")
  case (Inl e)
  with JSON_parse_faults [OF Inl] show ?thesis
    by (simp add: tryParseJSONPayload_def)
next
  case (Inr v)
  then show ?thesis
    by (simp add: tryParseJSONPayload_def)
qed

text \<open>
  C7 as stated fails: the three bytes quote, FF, quote are not well-formed UTF-8, and
  they decode to a value, the string of the one character U+FFFD.
\<close>

theorem C7_invalid_utf8_counterexample:
  "\<not> well_formed_utf8 [0x22, 0xFF, 0x22] \<and>
   tryParseJSONPayload [0x22, 0xFF, 0x22] = Inr (Some (JStr [0xFFFD]))"
  by (simp add: text_eval json_eval)

section \<open>The WebSocket bridge and the dispatcher: properties\<close>

text \<open>
  A payload that does not decode: the WSOpen branch reads \<open>payload.url\<close> of
  \<open>undefined\<close>, which throws; the HTTPRequest branch returns.
\<close>

lemma WSOpen_undecodable:
  assumes "parseMsgInit msg = Some init" and "op init = C2S_WSOpen P"
    and "op init \<noteq> C2S_HTTPRequest P"
    and "tryParseJSONPayload (drop 3 msg) = Inr None"
  shows "onMsg P env msg s = (Some TypeError, s)"
  using assms parseMsgInit_cursor [OF assms(1)]
  by (simp add: onMsg_def onMsg_WSOpen_def)

lemma HTTPRequest_undecodable:
  assumes "parseMsgInit msg = Some init" and "op init = C2S_HTTPRequest P"
    and "tryParseJSONPayload (drop 3 msg) = Inr None"
  shows "onMsg P env msg s = (None, s)"
  using assms parseMsgInit_cursor [OF assms(1)]
  by (simp add: onMsg_def onMsg_HTTPRequest_def)

text \<open>
  C4. The claim is that a WSOpen frame whose payload does not decode is dropped in
  silence. In the code the frame \<open>00 07 01 7B\<close> (payload an opening brace) opens no
  socket and registers nothing, the state is as it was, but a TypeError escapes
  \<open>onMsg\<close>. The same payload in an HTTPRequest frame is dropped in silence.
\<close>

theorem C4_undecodable_WSOpen_throws:
  "tryParseJSONPayload (drop 3 [0, 7, 1, 0x7B]) = Inr None \<and>
   parseMsgInit [0, 7, 1, 0x7B] = Some \<lparr>cursor = 3, seq = 7, op = C2S_WSOpen example_protocol\<rparr> \<and>
   onMsg example_protocol fetch_ok [0, 7, 1, 0x7B] new_relay = (Some TypeError, new_relay) \<and>
   parseMsgInit [0, 7, 0, 0x7B] = Some \<lparr>cursor = 3, seq = 7, op = C2S_HTTPRequest example_protocol\<rparr> \<and>
   onMsg example_protocol fetch_ok [0, 7, 0, 0x7B] new_relay = (None, new_relay)"
proof -
  have a: "parseMsgInit [0, 7, 1, 0x7B] = Some \<lparr>cursor = 3, seq = 7, op = 1\<rparr>"
    and b: "parseMsgInit [0, 7, 0, 0x7B] = Some \<lparr>cursor = 3, seq = 7, op = 0\<rparr>"
    by (simp_all add: parseMsgInit_header)
  have "onMsg example_protocol fetch_ok [0, 7, 1, 0x7B] new_relay = (Some TypeError, new_relay)"
    by (rule WSOpen_undecodable [OF a]) (simp_all add: example_protocol_def parse_open_brace)
  moreover have "onMsg example_protocol fetch_ok [0, 7, 0, 0x7B] new_relay = (None, new_relay)"
    by (rule HTTPRequest_undecodable [OF b]) (simp_all add: example_protocol_def parse_open_brace)
  ultimately show ?thesis
    using a b by (simp add: example_protocol_def parse_open_brace)
qed



section \<open>The registry: properties\<close>

lemma send_body_keeps:
  "send_body P sq cs fails s = (r, s') \<Longrightarrow>
   sockets s' = sockets s \<and> wss s' = wss s \<and> listeners s' = listeners s
   \<and> controllers s' = controllers s \<and> aborted s' = aborted s"
  by (induction cs arbitrary: s)
     (auto simp add: sendHTTPResponseChunk_def send_def split: sum.splits if_splits)

lemma handleHTTPRequest_keeps:
  "handleHTTPRequest P env v s = (r, s') \<Longrightarrow>
   sockets s' = sockets s \<and> wss s' = wss s \<and> sent s' = sent s \<and> aborted s' = aborted s"
  by (auto simp add: handleHTTPRequest_def Let_def events_on_def events_off_def
      split: fetch_outcome.splits thrown.splits)

lemma onMsg_HTTPRequest_keeps:
  "onMsg_HTTPRequest P env msg init s = (r, s') \<Longrightarrow>
   sockets s' = sockets s \<and> wss s' = wss s \<and> aborted s' = aborted s"
proof -
  assume a: "onMsg_HTTPRequest P env msg init s = (r, s')"
  show ?thesis
  proof (cases "tryParseJSONPayload (drop (cursor init) msg)")
    case (Inl f)
    with a show ?thesis by (simp add: onMsg_HTTPRequest_def)
  next
    case (Inr v)
    show ?thesis
    proof (cases "\<exists>x. v = Some x \<and> truthy x")
      case False
      with a Inr show ?thesis
        by (cases v) (auto simp add: onMsg_HTTPRequest_def)
    next
      case True
      then obtain x where x: "v = Some x" "truthy x" by blast
      obtain r1 s1 where h: "handleHTTPRequest P env x s = (r1, s1)"
        by (cases "handleHTTPRequest P env x s")
      note k = handleHTTPRequest_keeps [OF h]
      show ?thesis
      proof (cases "case r1 of Inr resp \<Rightarrow> Inr resp
                    | Inl e \<Rightarrow> map_sum id (bareErrorToResponse P) (as_BareError e)")
        case (Inl f)
        with a Inr x h k show ?thesis
          by (simp add: onMsg_HTTPRequest_def)
      next
        case (Inr resp)
        define s2 where "s2 = sendHTTPResponseStart P (seq init) (payload resp) s1"
        obtain r3 s3 where b: "send_body P (seq init) (body resp) (body_fails resp) s2 = (r3, s3)"
          by (cases "send_body P (seq init) (body resp) (body_fails resp) s2")
        have s2: "sockets s2 = sockets s \<and> wss s2 = wss s \<and> aborted s2 = aborted s"
          using k by (simp add: s2_def sendHTTPResponseStart_def sendJSONRes_def send_def)
        have "s' = s3 \<or> s' = sendHTTPResponseEnd P (seq init) s3"
          using a \<open>tryParseJSONPayload (drop (cursor init) msg) = Inr v\<close> x h Inr b
          by (auto simp add: onMsg_HTTPRequest_def Let_def s2_def split: option.splits)
        with send_body_keeps [OF b] s2 show ?thesis
          by (auto simp add: sendHTTPResponseEnd_def sendSimpleRes_def send_def)
      qed
    qed
  qed
qed

lemma fold_run_listener_keeps:
  "sockets (fold run_listener hs s) = sockets s \<and> wss (fold run_listener hs s) = wss s
   \<and> sent (fold run_listener hs s) = sent s"
  by (induction hs arbitrary: s) (simp_all add: run_listener_def events_off_def)

lemma onClose_keeps: "sockets (onClose s) = sockets s \<and> wss (onClose s) = wss s \<and> sent (onClose s) = sent s"
  by (simp add: onClose_def fold_run_listener_keeps)

lemma socket_event_keeps:
  "sockets (snd (ws_onopen P ws s)) = sockets s \<and> wss (snd (ws_onopen P ws s)) = wss s"
  "sockets (snd (ws_onclose P ws e s)) = sockets s \<and> wss (snd (ws_onclose P ws e s)) = wss s"
  "sockets (snd (ws_onmessage P ws m s)) = sockets s \<and> wss (snd (ws_onmessage P ws m s)) = wss s"
  by (cases m; simp add: ws_onopen_def ws_onclose_def sendWSOpen_def sendWSClose_def sendWSText_def
      sendWSBinary_def sendJSONRes_def sendSimpleRes_def send_def)+

text \<open>What one event does to one entry of the registry.\<close>

lemma step_sockets:
  "sockets (snd (step P ev s)) k = sockets s k
   \<or> (\<exists>env msg init. ev = Message env msg \<and> parseMsgInit msg = Some init
        \<and> op init = C2S_WSOpen P \<and> seq init = k
        \<and> sockets (snd (step P ev s)) k = Some (length (wss s)))"
proof (cases ev)
  case (Message env msg)
  show ?thesis
  proof (cases "parseMsgInit msg")
    case None
    with Message show ?thesis by (simp add: onMsg_def)
  next
    case (Some init)
    show ?thesis
    proof (cases "op init = C2S_HTTPRequest P")
      case True
      with Message Some onMsg_HTTPRequest_keeps [of P env msg init s] show ?thesis
        by (cases "onMsg_HTTPRequest P env msg init s") (simp add: onMsg_def)
    next
      case False
      with Message Some show ?thesis
        by (auto simp add: onMsg_def onMsg_WSOpen_def socket_send_def socket_close_def
            split: sum.splits option.splits)
    qed
  qed
next
  case ChannelClose
  then show ?thesis by (simp add: onClose_keeps)
next
  case (SocketOpen h)
  then show ?thesis by (simp add: socket_event_keeps)
next
  case (SocketClose h e)
  then show ?thesis by (simp add: socket_event_keeps)
next
  case (SocketMessage h m)
  then show ?thesis by (simp add: socket_event_keeps)
qed

lemma run_sockets: "sockets s k = Some h \<Longrightarrow> \<exists>h'. sockets (run P evs s) k = Some h'"
proof (induction evs arbitrary: s h)
  case Nil
  then show ?case by simp
next
  case (Cons ev evs)
  from step_sockets [of P ev s k] Cons.prems
  obtain h1 where "sockets (snd (step P ev s)) k = Some h1" by auto
  from Cons.IH [OF this] show ?case by simp
qed


text \<open>
  C8 (as amended). An entry of the registry is never removed. If sequence id \<open>k\<close>
  has an entry, it has one after every sequence of events; the close of its socket
  and the close of the channel leave the entry as it is; and a single event leaves
  it as it is unless the event is a WSOpen frame on \<open>k\<close>, which replaces it by the
  socket just created.
\<close>

theorem C8_registry_entry_never_removed:
  assumes "sockets s k = Some h"
  shows "(\<exists>h'. sockets (run P evs s) k = Some h')
     \<and> sockets (snd (step P (SocketClose h e) s)) k = Some h
     \<and> sockets (snd (step P ChannelClose s)) k = Some h
     \<and> (sockets (snd (step P ev s)) k = Some h
        \<or> (\<exists>env msg init. ev = Message env msg \<and> parseMsgInit msg = Some init
             \<and> op init = C2S_WSOpen P \<and> seq init = k
             \<and> sockets (snd (step P ev s)) k = Some (length (wss s))))"
  using assms run_sockets [OF assms, of P evs] step_sockets [of P ev s k]
  by (simp add: socket_event_keeps onClose_keeps)


text \<open>The WSOpen frame for \<open>ws://example.test/\<close>, and the relay after it.\<close>

lemma open_header: "parseMsgInit open_frame = Some \<lparr>cursor = 3, seq = 7, op = 1\<rparr>"
  by (simp add: open_frame_def parseMsgInit_header)

lemma open_payload:
  "tryParseJSONPayload (drop 3 open_frame) =
     Inr (Some (JObj [(js ''url'', JStr (js ''ws://example.test/''))]))"
  by (simp add: input_eval text_eval json_eval)

lemma open_url:
  "property_url (Some (JObj [(js ''url'', JStr (js ''ws://example.test/''))])) =
     Inr (Some (JStr (js ''ws://example.test/'')))"
  by (simp add: js_def)

lemma open_candidate: "absolute_URL_candidate (Some (JStr (js ''ws://example.test/'')))"
  by (simp add: url_eval)

lemma open_op:
  "op \<lparr>cursor = 3, seq = 7, op = 1\<rparr> = C2S_WSOpen example_protocol"
  "op \<lparr>cursor = 3, seq = 7, op = 1\<rparr> \<noteq> C2S_HTTPRequest example_protocol"
  by (simp_all add: example_protocol_def)

text \<open>A WSOpen frame for which a socket is opened.\<close>

lemma onMsg_WSOpen_opens:
  assumes "parseMsgInit msg = Some init" and "op init = C2S_WSOpen P"
    and "op init \<noteq> C2S_HTTPRequest P"
    and "tryParseJSONPayload (drop 3 msg) = Inr pl" and "property_url pl = Inr url"
    and "absolute_URL_candidate url" and "WebSocket_returns env"
  shows "onMsg P env msg s =
     (None, s\<lparr>wss := wss s @ [\<lparr>ws_url = url, binaryType_arraybuffer = True,
                                  handler_seq = seq init, outbox = [], close_calls = 0\<rparr>],
               sockets := (sockets s)(seq init \<mapsto> length (wss s))\<rparr>)"
  using assms parseMsgInit_cursor [OF assms(1)]
  by (simp add: onMsg_def onMsg_WSOpen_def)

lemma fetch_ok_WebSocket: "WebSocket_returns fetch_ok"
  by (simp add: fetch_ok_def)

lemma relay_socket_7_value:
  "relay_socket_7 =
     \<lparr>sent = [], sockets = [7 \<mapsto> 0],
      wss = [\<lparr>ws_url = Some (JStr (js ''ws://example.test/'')), binaryType_arraybuffer = True,
              handler_seq = 7, outbox = [], close_calls = 0\<rparr>],
      listeners = [], controllers = 0, aborted = []\<rparr>"
  unfolding relay_socket_7_def
  by (simp add: onMsg_WSOpen_opens
        [OF open_header open_op open_payload open_url open_candidate fetch_ok_WebSocket])
    (simp add: new_relay_def)

text \<open>
  The theorem at the relay with a socket on sequence id 7: the entry is there after
  the socket closed, the channel closed and a WSClose frame arrived.
\<close>

theorem C8_registry_entry_never_removed_witness:
  "sockets relay_socket_7 7 = Some 0
   \<and> (\<exists>h'. sockets (run example_protocol
          [SocketClose 0 \<lparr>close_code = 1000, reason = [], wasClean = True\<rparr>, ChannelClose,
           Message fetch_ok [0, 7, 4]] relay_socket_7) 7 = Some h')"
proof -
  have h: "sockets relay_socket_7 7 = Some 0"
    by (simp add: relay_socket_7_value)
  from C8_registry_entry_never_removed [OF h] h show ?thesis by blast
qed

text \<open>
  C8 as stated fails: sequence id 7 is registered for the socket to
  \<open>ws://example.test/\<close>, the socket closes, and the entry is still in the registry.
\<close>

theorem C8_socket_close_counterexample:
  "sockets relay_socket_7 7 = Some 0
   \<and> sockets (snd (step example_protocol
        (SocketClose 0 \<lparr>close_code = 1000, reason = [], wasClean = True\<rparr>) relay_socket_7)) 7
      = Some 0"
  by (simp add: relay_socket_7_value socket_event_keeps)

text \<open>Every relay reached from a new one by events has its registry in order.\<close>

lemma registry_ok_new: "registry_ok new_relay"
  by (simp add: registry_ok_def new_relay_def)

lemma registry_ok_same:
  "registry_ok s \<Longrightarrow> sockets s' = sockets s \<Longrightarrow> wss s' = wss s \<Longrightarrow> registry_ok s'"
  by (simp add: registry_ok_def)

lemma registry_ok_WSOpen:
  "registry_ok s \<Longrightarrow>
   registry_ok (s\<lparr>wss := wss s @ [\<lparr>ws_url = url, binaryType_arraybuffer = True,
                                     handler_seq = k, outbox = [], close_calls = 0\<rparr>],
                  sockets := (sockets s)(k \<mapsto> length (wss s))\<rparr>)"
  by (auto simp add: registry_ok_def nth_append less_Suc_eq)

lemma handler_seq_update:
  "handler_seq w = handler_seq (xs ! h) \<Longrightarrow> j < length xs \<Longrightarrow>
   handler_seq (xs[h := w] ! j) = handler_seq (xs ! j)"
  by (cases "h < length xs") (auto simp add: nth_list_update)

lemma registry_ok_socket_send:
  "registry_ok s \<Longrightarrow> registry_ok (snd (socket_send env h d s))"
  by (simp add: registry_ok_def socket_send_def handler_seq_update)

lemma registry_ok_socket_close:
  "registry_ok s \<Longrightarrow> registry_ok (socket_close h s)"
  by (simp add: registry_ok_def socket_close_def handler_seq_update)

lemma step_registry_ok: "registry_ok s \<Longrightarrow> registry_ok (snd (step P ev s))"
proof (cases ev)
  case (Message env msg)
  assume ok: "registry_ok s"
  show ?thesis
  proof (cases "parseMsgInit msg")
    case None
    with Message ok show ?thesis by (simp add: onMsg_def)
  next
    case (Some init)
    show ?thesis
    proof (cases "op init = C2S_HTTPRequest P")
      case True
      with Message Some ok onMsg_HTTPRequest_keeps [of P env msg init s] show ?thesis
        by (cases "onMsg_HTTPRequest P env msg init s") (auto simp add: onMsg_def intro: registry_ok_same)
    next
      case False
      with Message Some ok show ?thesis
        by (auto simp add: onMsg_def onMsg_WSOpen_def registry_ok_WSOpen registry_ok_socket_send
            registry_ok_socket_close split: sum.splits option.splits)
    qed
  qed
next
  case ChannelClose
  assume "registry_ok s"
  with ChannelClose show ?thesis by (auto intro: registry_ok_same simp add: onClose_keeps)
next
  case (SocketOpen h)
  assume "registry_ok s"
  with SocketOpen show ?thesis by (auto intro: registry_ok_same simp add: socket_event_keeps)
next
  case (SocketClose h e)
  assume "registry_ok s"
  with SocketClose show ?thesis by (auto intro: registry_ok_same simp add: socket_event_keeps)
next
  case (SocketMessage h m)
  assume "registry_ok s"
  with SocketMessage show ?thesis by (auto intro: registry_ok_same simp add: socket_event_keeps)
qed

lemma run_registry_ok: "registry_ok s \<Longrightarrow> registry_ok (run P evs s)"
  by (induction evs arbitrary: s) (simp_all add: step_registry_ok)

lemma reachable_registry_ok: "registry_ok (run P evs new_relay)"
  by (rule run_registry_ok [OF registry_ok_new])


text \<open>
  C10 (as amended). In a relay reached from a new one, take a WSOpen frame whose
  sequence id has a socket registered and for which a socket is opened: the payload
  decodes to a value whose \<open>url\<close> can be read and can be an absolute URL, and the
  WebSocket constructor returns. Then nothing is thrown; the registry entry is
  overwritten with the socket just created, which is not the old one, with no check
  of the entry that was there; the previously registered socket is neither closed nor
  unregistered: it is still among the sockets and is as it was, \<open>close\<close> not called and
  its handlers in place; no frame is sent; and the old socket's open, close and
  message events still send WSOpen, WSClose, WSDataText and WSDataBinary frames on
  that same sequence id.
\<close>

theorem C10_WSOpen_overwrites_entry:
  assumes "s = run P evs new_relay"
    and "parseMsgInit msg = Some init" and "op init = C2S_WSOpen P"
    and "op init \<noteq> C2S_HTTPRequest P"
    and "sockets s (seq init) = Some old"
    and "tryParseJSONPayload (drop 3 msg) = Inr pl" and "property_url pl = Inr url"
    and "absolute_URL_candidate url" and "WebSocket_returns env"
    and "s' = snd (onMsg P env msg s)"
  shows "fst (onMsg P env msg s) = None
     \<and> sockets s' (seq init) = Some (length (wss s)) \<and> old < length (wss s)
     \<and> wss s' = wss s @ [\<lparr>ws_url = url, binaryType_arraybuffer = True,
                            handler_seq = seq init, outbox = [], close_calls = 0\<rparr>]
     \<and> wss s' ! old = wss s ! old
     \<and> sent s' = sent s
     \<and> sent (snd (step P (SocketOpen old) s')) = sent s' @ [simple_buf (seq init) (S2C_WSOpen P)]
     \<and> sent (snd (step P (SocketClose old e) s')) =
         sent s' @ [frame_buf (seq init) (S2C_WSClose P)
                     (TextEncoder_encode (stringify_S2CWSClosePayload e))]
     \<and> sent (snd (step P (SocketMessage old (EventString d)) s')) =
         sent s' @ [frame_buf (seq init) (S2C_WSDataText P) (TextEncoder_encode d)]
     \<and> sent (snd (step P (SocketMessage old (EventBuffer b)) s')) =
         sent s' @ [frame_buf (seq init) (S2C_WSDataBinary P) b]"
proof -
  have "registry_ok s"
    unfolding assms(1) by (rule reachable_registry_ok)
  with assms(5) have old: "old < length (wss s)" "handler_seq (wss s ! old) = seq init"
    by (auto simp add: registry_ok_def)
  note m = onMsg_WSOpen_opens [OF assms(2,3,4,6,7,8,9), of s]
  have s': "s' = s\<lparr>wss := wss s @ [\<lparr>ws_url = url, binaryType_arraybuffer = True,
                                  handler_seq = seq init, outbox = [], close_calls = 0\<rparr>],
               sockets := (sockets s)(seq init \<mapsto> length (wss s))\<rparr>"
    by (simp add: assms(10) m)
  have nth: "wss s' ! old = wss s ! old" and len: "old < length (wss s')"
    using old by (simp_all add: s' nth_append)
  have e: "\<lparr>close_code = close_code e, reason = reason e, wasClean = wasClean e\<rparr> = e"
    by simp
  show ?thesis
    using old nth len
    by (simp add: m ws_onopen_def ws_onclose_def sendWSOpen_def sendWSClose_def sendWSText_def
        sendWSBinary_def sendJSONRes_def sendSimpleRes_def send_def e)
      (simp add: s')
qed

text \<open>
  The theorem at a second WSOpen frame for \<open>ws://example.test/\<close> on sequence id 7:
  the entry moves from socket 0 to socket 1, socket 0 is as it was, and its open event
  still sends a WSOpen frame on 7.
\<close>

theorem C10_WSOpen_overwrites_entry_witness:
  "sockets relay_socket_7 7 = Some 0
   \<and> sockets (snd (onMsg example_protocol fetch_ok open_frame relay_socket_7)) 7 = Some 1
   \<and> wss (snd (onMsg example_protocol fetch_ok open_frame relay_socket_7)) ! 0 = wss relay_socket_7 ! 0
   \<and> sent (snd (step example_protocol (SocketOpen 0)
        (snd (onMsg example_protocol fetch_ok open_frame relay_socket_7)))) =
       [simple_buf 7 (S2C_WSOpen example_protocol)]"
proof -
  have h5: "sockets relay_socket_7 (seq \<lparr>cursor = 3, seq = 7, op = 1\<rparr>) = Some 0"
    by (simp add: relay_socket_7_value)
  have l: "length (wss relay_socket_7) = 1" and s: "sent relay_socket_7 = []"
    by (simp_all add: relay_socket_7_value)
  from C10_WSOpen_overwrites_entry [OF relay_socket_7_def open_header open_op h5 open_payload
      open_url open_candidate fetch_ok_WebSocket refl]
  show ?thesis
    using h5 l by (simp add: s nth_append del: step.simps)
qed

text \<open>
  C10 as stated fails: sequence id 7 has a socket, and a WSOpen frame on 7 whose
  payload does not decode overwrites nothing: the handler throws and the relay is as
  it was.
\<close>

theorem C10_undecodable_payload_counterexample:
  "sockets relay_socket_7 7 = Some 0
   \<and> parseMsgInit [0, 7, 1, 0x7B] = Some \<lparr>cursor = 3, seq = 7, op = C2S_WSOpen example_protocol\<rparr>
   \<and> onMsg example_protocol fetch_ok [0, 7, 1, 0x7B] relay_socket_7 = (Some TypeError, relay_socket_7)"
proof -
  have a: "parseMsgInit [0, 7, 1, 0x7B] = Some \<lparr>cursor = 3, seq = 7, op = 1\<rparr>"
    by (simp add: parseMsgInit_header)
  have "onMsg example_protocol fetch_ok [0, 7, 1, 0x7B] relay_socket_7 = (Some TypeError, relay_socket_7)"
    by (rule WSOpen_undecodable [OF a]) (simp_all add: example_protocol_def parse_open_brace)
  moreover have "sockets relay_socket_7 7 = Some 0"
    by (simp add: relay_socket_7_value)
  moreover have "parseMsgInit [0, 7, 1, 0x7B] = Some \<lparr>cursor = 3, seq = 7, op = C2S_WSOpen example_protocol\<rparr>"
    by (simp add: a example_protocol_def)
  ultimately show ?thesis by blast
qed

text \<open>
  A WSOpen frame whose payload has no \<open>url\<close>: the constructor throws, and nothing is
  opened or registered.
\<close>

lemma WSOpen_no_url_scenario:
  "onMsg example_protocol fetch_ok [0, 7, 1, 0x7B, 0x7D] new_relay = (Some SyntaxError, new_relay)"
  by (simp add: onMsg_def onMsg_WSOpen_def parseMsgInit_header parse_empty_object
      example_protocol_def url_eval)

section \<open>What can escape a handler\<close>

text \<open>
  No event takes the relay outside the model: the conversion of a string chunk that
  is not modelled is never reached, since the only string chunk is the JSON text of
  an error's body, which begins with a brace.
\<close>

lemma tryParseJSONPayload_returns: "\<exists>r. tryParseJSONPayload payloadRaw = Inr r"
  by (cases "JSON_parse (TextDecoder_decode payloadRaw)")
     (auto simp add: tryParseJSONPayload_def dest: JSON_parse_faults)

lemma as_BareError_faults: "as_BareError e = Inl f \<Longrightarrow> f = TypeError"
  by (cases e rule: as_BareError.cases) auto

lemma send_body_modelled:
  "\<forall>c \<in> set cs. Uint8Array c \<noteq> Inl NotModelled \<Longrightarrow>
   fst (send_body P sq cs fails s) \<noteq> Some NotModelled"
  by (induction cs arbitrary: s) (auto split: sum.splits)

lemma response_modelled:
  "handleHTTPRequest P env v s = (Inr resp, s1) \<Longrightarrow> \<forall>c \<in> set (body resp). Uint8Array c \<noteq> Inl NotModelled"
  by (auto simp add: handleHTTPRequest_def Let_def bareErrorToResponse_def
      stringify_BareErrorBody_def json_object_def
      split: fetch_outcome.splits thrown.splits)

lemma error_response_modelled:
  "\<forall>c \<in> set (body (bareErrorToResponse P b)). Uint8Array c \<noteq> Inl NotModelled"
  by (simp add: bareErrorToResponse_def stringify_BareErrorBody_def json_object_def)

lemma onMsg_HTTPRequest_modelled:
  "fst (onMsg_HTTPRequest P env msg init s) \<noteq> Some NotModelled"
proof -
  from tryParseJSONPayload_returns obtain v
    where v: "tryParseJSONPayload (drop (cursor init) msg) = Inr v" by blast
  show ?thesis
  proof (cases "\<exists>x. v = Some x \<and> truthy x")
    case False
    with v show ?thesis
      by (cases v) (auto simp add: onMsg_HTTPRequest_def)
  next
    case True
    then obtain x where x: "v = Some x" "truthy x" by blast
    obtain r1 s1 where h: "handleHTTPRequest P env x s = (r1, s1)"
      by (cases "handleHTTPRequest P env x s")
    show ?thesis
    proof (cases "case r1 of Inr resp \<Rightarrow> Inr resp
                  | Inl e \<Rightarrow> map_sum id (bareErrorToResponse P) (as_BareError e)")
      case (Inl f)
      then have "f = TypeError"
        by (cases r1) (auto simp add: map_sum_def split: sum.splits dest: as_BareError_faults)
      with v x h Inl show ?thesis
        by (simp add: onMsg_HTTPRequest_def)
    next
      case (Inr resp)
      have "\<forall>c \<in> set (body resp). Uint8Array c \<noteq> Inl NotModelled"
      proof (cases r1)
        case (Inl e)
        with Inr obtain b where "resp = bareErrorToResponse P b"
          by (cases "as_BareError e") auto
        then show ?thesis by (simp add: error_response_modelled)
      next
        case r: (Inr resp')
        with Inr have "resp' = resp" by simp
        with r h show ?thesis by (auto dest: response_modelled)
      qed
      from send_body_modelled [OF this]
      have n: "fst (send_body P (seq init) (body resp) (body_fails resp)
            (sendHTTPResponseStart P (seq init) (payload resp) s1)) \<noteq> Some NotModelled" .
      obtain r3 s3 where b: "send_body P (seq init) (body resp) (body_fails resp)
            (sendHTTPResponseStart P (seq init) (payload resp) s1) = (r3, s3)"
        by (cases "send_body P (seq init) (body resp) (body_fails resp)
            (sendHTTPResponseStart P (seq init) (payload resp) s1)")
      with n have "r3 \<noteq> Some NotModelled" by simp
      then show ?thesis
        using v x h Inr b
        by (cases r3) (simp_all add: onMsg_HTTPRequest_def Let_def)
    qed
  qed
qed

lemma property_url_faults: "property_url v = Inl f \<Longrightarrow> f = TypeError"
  by (cases v rule: property_url.cases) auto

lemma onMsg_WSOpen_fault: "fst (onMsg_WSOpen env msg init s) \<noteq> Some NotModelled"
proof -
  from tryParseJSONPayload_returns obtain v
    where v: "tryParseJSONPayload (drop (cursor init) msg) = Inr v" by blast
  show ?thesis
    by (cases "property_url v") (auto simp add: onMsg_WSOpen_def v dest: property_url_faults)
qed

lemma step_modelled: "fst (step P ev s) \<noteq> Some NotModelled"
proof (cases ev)
  case (Message env msg)
  show ?thesis
  proof (cases "parseMsgInit msg")
    case None
    with Message show ?thesis by (simp add: onMsg_def)
  next
    case (Some init)
    show ?thesis
      using Message Some
      by (simp add: onMsg_def onMsg_HTTPRequest_modelled onMsg_WSOpen_fault socket_send_def
          split: option.splits)
  qed
next
  case (SocketMessage h m)
  then show ?thesis by (cases m) (simp_all add: )
qed (simp_all add: ws_onopen_def ws_onclose_def)

section \<open>The WebSocket scenario of the spec\<close>

text \<open>
  The socket registered on sequence id 7 opens, receives the text \<open>hi\<close> and closes
  cleanly with code 1000: the relay sends a WSOpen frame, a WSDataText frame carrying
  \<open>hi\<close> and a WSClose frame carrying the close event, all on sequence id 7.
\<close>

lemma websocket_scenario:
  "sent (run example_protocol
      [SocketOpen 0, SocketMessage 0 (EventString (js ''hi'')),
       SocketClose 0 \<lparr>close_code = 1000, reason = [], wasClean = True\<rparr>]
      relay_socket_7) =
     [simple_buf 7 3,
      frame_buf 7 5 (ascii ''hi''),
      frame_buf 7 4 (TextEncoder_encode
        (stringify_S2CWSClosePayload \<lparr>close_code = 1000, reason = [], wasClean = True\<rparr>))]"
  by (simp add: relay_socket_7_value ws_onopen_def ws_onclose_def sendWSOpen_def sendWSClose_def
      sendWSText_def sendJSONRes_def sendSimpleRes_def send_def example_protocol_def
      TextEncoder_encode_def utf8_encode_def js_def ascii_def)

end
